theory Spec2Isabelle
  imports Complex_Main
begin

section \<open>Python values and exceptions\<close>

text \<open>
  The connectors work on the decoded JSON of the providers' responses. A decoded JSON
  value is a Python \<open>None\<close>, \<open>bool\<close>, \<open>int\<close>, \<open>float\<close>, \<open>str\<close>, \<open>list\<close> or
  \<open>dict\<close> with string keys; a dict is the association list of its items, in insertion
  order. A JSON number with a fraction or an exponent decodes to a float, and so do the
  literals \<open>NaN\<close>, \<open>Infinity\<close> and \<open>-Infinity\<close>, which the decoder accepts. A finite float
  is the rational number that it denotes (every double is one; the two zeros are equal
  and are one value here).
\<close>

datatype pyfloat = Finite rat | PosInfinity | NegInfinity | NaN

datatype json =
    JNull
  | JBool bool
  | JInt int
  | JFloat pyfloat
  | JStr string
  | JList "json list"
  | JObj "(string \<times> json) list"

text \<open>
  The exceptions that the code raises itself (\<open>InvalidTransactionError\<close>, with a message
  or, in the fallback connector, with the list of the collected exceptions, and the plain
  \<open>Exception\<close>), and the ones raised by the Python operations it uses.
  \<open>RequestException\<close> stands for \<open>requests.get\<close> raising (no connection, timeout).
\<close>

datatype exn =
    InvalidTransactionError arg
  | Exception string
  | KeyError
  | IndexError
  | TypeError
  | ValueError
  | AttributeError
  | OverflowError
  | RequestException
and arg =
    Msg string
  | Exceptions "exn list"


definition and_then :: "exn + 'a \<Rightarrow> ('a \<Rightarrow> exn + 'b) \<Rightarrow> exn + 'b" where
  "and_then m f = (case m of Inl e \<Rightarrow> Inl e | Inr x \<Rightarrow> f x)"

text \<open>\<open>bool(v)\<close>, as \<open>if v\<close> and \<open>not v\<close> evaluate it.\<close>

fun truthy :: "json \<Rightarrow> bool" where
  "truthy JNull = False"
| "truthy (JBool b) = b"
| "truthy (JInt n) = (n \<noteq> 0)"
| "truthy (JFloat x) = (x \<noteq> Finite 0)"
| "truthy (JStr s) = (s \<noteq> [])"
| "truthy (JList xs) = (xs \<noteq> [])"
| "truthy (JObj kvs) = (kvs \<noteq> [])"

text \<open>\<open>v[key]\<close> with a string key.\<close>

fun getitem :: "json \<Rightarrow> string \<Rightarrow> exn + json" where
  "getitem (JObj kvs) k = (case map_of kvs k of None \<Rightarrow> Inl KeyError | Some v \<Rightarrow> Inr v)"
| "getitem v k = Inl TypeError"

text \<open>\<open>v[0]\<close>. The keys of a decoded JSON object are strings, so \<open>0\<close> is never one.\<close>

fun getitem0 :: "json \<Rightarrow> exn + json" where
  "getitem0 (JList []) = Inl IndexError"
| "getitem0 (JList (x # xs)) = Inr x"
| "getitem0 (JStr []) = Inl IndexError"
| "getitem0 (JStr (c # cs)) = Inr (JStr [c])"
| "getitem0 (JObj kvs) = Inl KeyError"
| "getitem0 v = Inl TypeError"

text \<open>\<open>v[n:]\<close>.\<close>

fun slice_from :: "nat \<Rightarrow> json \<Rightarrow> exn + json" where
  "slice_from n (JStr s) = Inr (JStr (drop n s))"
| "slice_from n (JList xs) = Inr (JList (drop n xs))"
| "slice_from n v = Inl TypeError"

text \<open>\<open>key in v\<close> with a string key: a key of a dict, an element of a list, a substring of a string.\<close>

definition substring :: "string \<Rightarrow> string \<Rightarrow> bool" where
  "substring k s = list_ex (\<lambda>i. take (length k) (drop i s) = k) [0 ..< Suc (length s)]"

fun contains :: "string \<Rightarrow> json \<Rightarrow> exn + bool" where
  "contains k (JObj kvs) = Inr (k \<in> set (map fst kvs))"
| "contains k (JList xs) = Inr (JStr k \<in> set xs)"
| "contains k (JStr s) = Inr (substring k s)"
| "contains k v = Inl TypeError"

text \<open>The elements that \<open>for x in v\<close> visits: of a dict its keys, of a string its characters.\<close>

fun iter :: "json \<Rightarrow> exn + json list" where
  "iter (JList xs) = Inr xs"
| "iter (JObj kvs) = Inr (map (\<lambda>kv. JStr (fst kv)) kvs)"
| "iter (JStr s) = Inr (map (\<lambda>c. JStr [c]) s)"
| "iter v = Inl TypeError"

text \<open>\<open>o.get(key, default)\<close>: only a dict has the method.\<close>

fun dict_get :: "json \<Rightarrow> string \<Rightarrow> json \<Rightarrow> exn + json" where
  "dict_get (JObj kvs) k d = (case map_of kvs k of None \<Rightarrow> Inr d | Some v \<Rightarrow> Inr v)"
| "dict_get v k d = Inl AttributeError"

text \<open>
  \<open>s.add(v)\<close> on a set: a list and a dict are not hashable. A set holds one element for
  all the values that are equal, and \<open>True\<close>, \<open>1\<close> and \<open>1.0\<close> are equal, as \<open>False\<close>, \<open>0\<close>
  and \<open>0.0\<close> are: here a bool or a float that is equal to an int is held as that int.
\<close>

fun set_key :: "json \<Rightarrow> json" where
  "set_key (JBool b) = JInt (if b then 1 else 0)"
| "set_key (JFloat (Finite q)) = (if q \<in> \<int> then JInt \<lfloor>q\<rfloor> else JFloat (Finite q))"
| "set_key v = v"

fun set_add :: "json \<Rightarrow> json set \<Rightarrow> exn + json set" where
  "set_add (JList xs) s = Inl TypeError"
| "set_add (JObj kvs) s = Inl TypeError"
| "set_add v s = Inr (insert (set_key v) s)"

text \<open>
  The conversions of Python that read a string are taken as they are, as parameters:
  \<open>int(s)\<close>, \<open>float(s) == 0\<close>, \<open>int(s, 16)\<close> (each \<open>None\<close> where Python raises
  \<open>ValueError\<close>) and \<open>str(n)\<close>.
\<close>

record builtins =
  int_of_str :: "string \<Rightarrow> int option"
  float_of_str_is_zero :: "string \<Rightarrow> bool option"
  int16_of_str :: "string \<Rightarrow> int option"
  str_of_int :: "int \<Rightarrow> string"

text \<open>
  \<open>int(v)\<close>. A float is truncated towards zero; an infinity raises \<open>OverflowError\<close>
  and a NaN raises \<open>ValueError\<close>.
\<close>

definition towards_zero :: "rat \<Rightarrow> int" where
  "towards_zero q = (if 0 \<le> q then \<lfloor>q\<rfloor> else \<lceil>q\<rceil>)"

fun py_int :: "builtins \<Rightarrow> json \<Rightarrow> exn + int" where
  "py_int py (JInt n) = Inr n"
| "py_int py (JBool b) = Inr (if b then 1 else 0)"
| "py_int py (JFloat (Finite q)) = Inr (towards_zero q)"
| "py_int py (JFloat NaN) = Inl ValueError"
| "py_int py (JFloat x) = Inl OverflowError"
| "py_int py (JStr s) = (case int_of_str py s of None \<Rightarrow> Inl ValueError | Some n \<Rightarrow> Inr n)"
| "py_int py v = Inl TypeError"

text \<open>
  \<open>float(v) == 0\<close>. An int converts to the nearest double, and to none
  (\<open>OverflowError\<close>) from \<open>2^1024 - 2^970\<close> on.
\<close>

fun py_float_is_zero :: "builtins \<Rightarrow> json \<Rightarrow> exn + bool" where
  "py_float_is_zero py (JInt n) =
     (if \<bar>n\<bar> \<ge> 2 ^ 1024 - 2 ^ 970 then Inl OverflowError else Inr (n = 0))"
| "py_float_is_zero py (JBool b) = Inr (\<not> b)"
| "py_float_is_zero py (JFloat x) = Inr (x = Finite 0)"
| "py_float_is_zero py (JStr s) =
     (case float_of_str_is_zero py s of None \<Rightarrow> Inl ValueError | Some z \<Rightarrow> Inr z)"
| "py_float_is_zero py v = Inl TypeError"

text \<open>\<open>int(v, 16)\<close>: with a base, only a string converts.\<close>

fun py_int16 :: "builtins \<Rightarrow> json \<Rightarrow> exn + int" where
  "py_int16 py (JStr s) = (case int16_of_str py s of None \<Rightarrow> Inl ValueError | Some n \<Rightarrow> Inr n)"
| "py_int16 py v = Inl TypeError"

text \<open>
  \<open>template % s\<close> for a template whose only conversion is one \<open>%s\<close>, as the URL
  templates of the constructors are.
\<close>

fun fmt :: "string \<Rightarrow> string \<Rightarrow> string" where
  "fmt (c # d # cs) a = (if c = CHR ''%'' \<and> d = CHR ''s'' then a @ cs else c # fmt (d # cs) a)"
| "fmt cs a = cs"

text \<open>A \<open>for\<close> loop over a list whose body may raise: the first exception ends it.\<close>

primrec for_each :: "('a \<Rightarrow> 's \<Rightarrow> exn + 's) \<Rightarrow> 'a list \<Rightarrow> 's \<Rightarrow> exn + 's" where
  "for_each body [] s = Inr s"
| "for_each body (x # xs) s =
     (case body x s of Inl e \<Rightarrow> Inl e | Inr s' \<Rightarrow> for_each body xs s')"

section \<open>The network\<close>

text \<open>
  \<open>requests.get\<close> either raises or gives a response with a status code and a body;
  the body is \<open>None\<close> where \<open>r.json()\<close> raises. The answer may depend on the URL and on
  how many requests were made before. The state that the connectors thread is the log
  of the requests: the list of the URLs that \<open>requests.get\<close> was called with so far.
\<close>

datatype reply = Response int "json option" | NoResponse

type_synonym net = "nat \<Rightarrow> string \<Rightarrow> reply"

type_synonym 'a io = "string list \<Rightarrow> (exn + 'a) \<times> string list"

definition requests_get :: "net \<Rightarrow> string \<Rightarrow> (int \<times> json option) io" where
  "requests_get net url reqs =
     (case net (length reqs) url of
        NoResponse \<Rightarrow> (Inl RequestException, reqs @ [url])
      | Response status_code body \<Rightarrow> (Inr (status_code, body), reqs @ [url]))"

definition r_json :: "json option \<Rightarrow> exn + json" where
  "r_json body = (case body of None \<Rightarrow> Inl ValueError | Some j \<Rightarrow> Inr j)"

section \<open>Transaction lookup\<close>

text \<open>
  Modelled from the spec: the class \<open>TransactionData\<close> of the package's
  \<open>__init__\<close> module is not among the sources; the spec has it as a data-only record of
  the four fields its constructor is called with. \<open>revoked_addresses\<close> is \<open>None\<close> where
  the caller passes Python's \<open>None\<close>.
\<close>

record TransactionData =
  signing_key :: json
  script :: json
  date_time_utc :: json
  revoked_addresses :: "json set option"

text \<open>What a \<open>lookup_tx\<close> returns: a transaction record, a bool, or \<open>None\<close>.\<close>

datatype pyval = Tx TransactionData | PyBool bool | PyNone

fun truthy_val :: "pyval \<Rightarrow> bool" where
  "truthy_val (Tx t) = True"
| "truthy_val (PyBool b) = b"
| "truthy_val PyNone = False"

fun is_Tx :: "pyval \<Rightarrow> bool" where
  "is_Tx (Tx t) = True"
| "is_Tx v = False"

text \<open>
  Modelled from the spec: the enumerations \<open>Chain\<close> and \<open>BlockchainType\<close> of the
  package \<open>cert_core\<close> are not among the sources; these are the members the source names,
  a test pair, a UTXO-style mainnet/testnet pair and an account-based pair.
\<close>

datatype Chain =
    bitcoin_mainnet
  | bitcoin_testnet
  | bitcoin_regtest
  | mockchain
  | ethereum_mainnet
  | ethereum_ropsten

datatype BlockchainType = bitcoin | ethereum | mock

fun blockchain_type :: "Chain \<Rightarrow> BlockchainType" where
  "blockchain_type bitcoin_mainnet = bitcoin"
| "blockchain_type bitcoin_testnet = bitcoin"
| "blockchain_type bitcoin_regtest = bitcoin"
| "blockchain_type mockchain = mock"
| "blockchain_type ethereum_mainnet = ethereum"
| "blockchain_type ethereum_ropsten = ethereum"

subsection \<open>TransactionLookupConnector.fetch_tx\<close>

definition fetch_tx :: "net \<Rightarrow> string \<Rightarrow> string \<Rightarrow> json io" where
  "fetch_tx net url txid reqs =
     (case requests_get net (fmt url txid) reqs of
        (Inl e, reqs') \<Rightarrow> (Inl e, reqs')
      | (Inr (status_code, body), reqs') \<Rightarrow>
          if status_code \<noteq> 200
          then (Inl (InvalidTransactionError (Msg (''error looking up transaction_id='' @ txid))), reqs')
          else (r_json body, reqs'))"

subsection \<open>BlockchainInfoConnector\<close>

definition BlockchainInfoConnector_url :: "Chain \<Rightarrow> exn + string" where
  "BlockchainInfoConnector_url chain =
     (if chain = bitcoin_testnet then Inr ''https://testnet.blockchain.info/rawtx/%s?cors=true''
      else if chain = bitcoin_mainnet then Inr ''https://blockchain.info/rawtx/%s?cors=true''
      else Inl (Exception ''unsupported chain requested with BlockchainInfo collector''))"

text \<open>\<open>time\<close> and \<open>signing_key\<close>, read before the loop.\<close>

definition blockchain_info_header :: "json \<Rightarrow> exn + json \<times> json" where
  "blockchain_info_header json_response =
     and_then (getitem json_response ''time'') (\<lambda>time.
     and_then (getitem json_response ''inputs'') (\<lambda>inputs.
     and_then (getitem0 inputs) (\<lambda>input0.
     and_then (getitem input0 ''prev_out'') (\<lambda>prev_out.
     and_then (getitem prev_out ''addr'') (\<lambda>key. Inr (time, key))))))"

text \<open>The outputs that \<open>for o in json_response[field]\<close> visits.\<close>

definition outputs_of :: "string \<Rightarrow> json \<Rightarrow> exn + json list" where
  "outputs_of field json_response = and_then (getitem json_response field) iter"

text \<open>The test \<open>int(o.get('value', 1)) == 0\<close> of the loop.\<close>

definition blockchain_info_zero_value :: "builtins \<Rightarrow> json \<Rightarrow> exn + bool" where
  "blockchain_info_zero_value py out =
     and_then (dict_get out ''value'' (JInt 1)) (\<lambda>v.
     and_then (py_int py v) (\<lambda>n. Inr (n = 0)))"

text \<open>The payload \<open>o['script'][4:]\<close> of an output.\<close>

definition blockchain_info_payload :: "json \<Rightarrow> exn + json" where
  "blockchain_info_payload out = and_then (getitem out ''script'') (\<lambda>s. slice_from 4 s)"

text \<open>The body of the loop over \<open>json_response['out']\<close>; the state is \<open>(script, revoked)\<close>.\<close>

definition blockchain_info_out ::
    "builtins \<Rightarrow> json \<Rightarrow> json option \<times> json set \<Rightarrow> exn + json option \<times> json set" where
  "blockchain_info_out py out st =
     and_then (blockchain_info_zero_value py out) (\<lambda>zero.
       if zero
       then and_then (blockchain_info_payload out) (\<lambda>s. Inr (Some s, snd st))
       else and_then (dict_get out ''spent'' JNull) (\<lambda>spent.
            if truthy spent
            then and_then (dict_get out ''addr'' JNull) (\<lambda>addr.
                 and_then (set_add addr (snd st)) (\<lambda>revoked. Inr (fst st, revoked)))
            else Inr st))"

text \<open>
  The message of the exception is \<open>'...' % json_response\<close> in the source, with no
  conversion in the string: with a dict on the right, as \<open>json_response\<close> is once its
  keys have been read, the result is the string itself.
\<close>

definition missing_script :: exn where
  "missing_script =
     InvalidTransactionError (Msg ''transaction response is missing op_return script'')"

definition script_or_raise :: "json option \<Rightarrow> exn + json" where
  "script_or_raise scr =
     (case scr of
        None \<Rightarrow> Inl missing_script
      | Some s \<Rightarrow> if \<not> truthy s then Inl missing_script else Inr s)"

definition blockchain_info_parse_tx :: "builtins \<Rightarrow> json \<Rightarrow> exn + TransactionData" where
  "blockchain_info_parse_tx py json_response =
     and_then (blockchain_info_header json_response) (\<lambda>h.
     and_then (outputs_of ''out'' json_response) (\<lambda>outs.
     and_then (for_each (blockchain_info_out py) outs (None, {})) (\<lambda>st.
     and_then (script_or_raise (fst st)) (\<lambda>s.
       Inr \<lparr>signing_key = snd h, script = s, date_time_utc = fst h,
            revoked_addresses = Some (snd st)\<rparr>))))"

subsection \<open>BlockcypherConnector\<close>

definition BlockcypherConnector_url :: "Chain \<Rightarrow> exn + string" where
  "BlockcypherConnector_url chain =
     (if chain = bitcoin_testnet then Inr ''http://api.blockcypher.com/v1/btc/test3/txs/%s?limit=100''
      else if chain = bitcoin_mainnet then Inr ''https://api.blockcypher.com/v1/btc/main/txs/%s?limit=100''
      else Inl (Exception ''unsupported chain requested with blockcypher collector''))"

definition blockcypher_header :: "json \<Rightarrow> exn + json \<times> json" where
  "blockcypher_header json_response =
     and_then (getitem json_response ''received'') (\<lambda>time.
     and_then (getitem json_response ''inputs'') (\<lambda>inputs.
     and_then (getitem0 inputs) (\<lambda>input0.
     and_then (getitem input0 ''addresses'') (\<lambda>addresses.
     and_then (getitem0 addresses) (\<lambda>key. Inr (time, key))))))"

text \<open>The test \<open>float(o.get('value', 1)) == 0\<close> of the loop.\<close>

definition blockcypher_zero_value :: "builtins \<Rightarrow> json \<Rightarrow> exn + bool" where
  "blockcypher_zero_value py out =
     and_then (dict_get out ''value'' (JInt 1)) (\<lambda>v. py_float_is_zero py v)"

text \<open>The payload \<open>o['data_hex']\<close> of an output.\<close>

definition blockcypher_payload :: "json \<Rightarrow> exn + json" where
  "blockcypher_payload out = getitem out ''data_hex''"

definition blockcypher_out ::
    "builtins \<Rightarrow> json \<Rightarrow> json option \<times> json set \<Rightarrow> exn + json option \<times> json set" where
  "blockcypher_out py out st =
     and_then (blockcypher_zero_value py out) (\<lambda>zero.
       if zero
       then and_then (blockcypher_payload out) (\<lambda>s. Inr (Some s, snd st))
       else and_then (dict_get out ''spent_by'' JNull) (\<lambda>spent.
            if truthy spent
            then and_then (dict_get out ''addresses'' JNull) (\<lambda>addrs.
                 and_then (getitem0 addrs) (\<lambda>addr.
                 and_then (set_add addr (snd st)) (\<lambda>revoked. Inr (fst st, revoked))))
            else Inr st))"

definition blockcypher_parse_tx :: "builtins \<Rightarrow> json \<Rightarrow> exn + TransactionData" where
  "blockcypher_parse_tx py json_response =
     and_then (blockcypher_header json_response) (\<lambda>h.
     and_then (outputs_of ''outputs'' json_response) (\<lambda>outs.
     and_then (for_each (blockcypher_out py) outs (None, {})) (\<lambda>st.
     and_then (script_or_raise (fst st)) (\<lambda>s.
       Inr \<lparr>signing_key = snd h, script = s, date_time_utc = fst h,
            revoked_addresses = Some (snd st)\<rparr>))))"

subsection \<open>EtherscanConnector\<close>

definition EtherscanConnector_urls :: "Chain \<Rightarrow> string \<Rightarrow> exn + string \<times> string" where
  "EtherscanConnector_urls chain api_key =
     and_then
       (if chain = ethereum_mainnet then Inr ''https://api.etherscan.io''
        else if chain = ethereum_ropsten then Inr ''https://ropsten.etherscan.io''
        else Inl (Exception ''unsupported chain requested with Etherscan collector''))
       (\<lambda>url_prefix. Inr
         (url_prefix @ ''/api?module=proxy&action=eth_getTransactionByHash&apikey='' @ api_key
            @ ''&txhash=%s'',
          url_prefix @ ''/api?module=block&action=getblockreward&apikey='' @ api_key
            @ ''&blockno=%s''))"

text \<open>
  The part of \<open>parse_tx\<close> before its request: the three fields, the two checks and the URL
  of the block. \<open>int(block_no, 16)\<close> takes a string only, so the message of the later
  failure, \<open>'...%s' % block_no\<close>, is built from that string.
\<close>

definition etherscan_fields :: "builtins \<Rightarrow> string \<Rightarrow> json \<Rightarrow> exn + json \<times> json \<times> string \<times> string" where
  "etherscan_fields py timestamp_url json_response =
     and_then (getitem json_response ''result'') (\<lambda>r1.
     and_then (getitem r1 ''from'') (\<lambda>key.
     and_then (getitem json_response ''result'') (\<lambda>r2.
     and_then (getitem r2 ''input'') (\<lambda>s.
     and_then (getitem json_response ''result'') (\<lambda>r3.
     and_then (getitem r3 ''blockNumber'') (\<lambda>block_no.
       if \<not> truthy s
       then Inl (InvalidTransactionError (Msg ''transaction response is missing input''))
       else if \<not> truthy block_no
       then Inl (InvalidTransactionError (Msg ''transaction is not yet confirmed''))
       else (case block_no of
               JStr b \<Rightarrow>
                 (case int16_of_str py b of
                    None \<Rightarrow> Inl ValueError
                  | Some n \<Rightarrow> Inr (key, s, b, fmt timestamp_url (str_of_int py n)))
             | _ \<Rightarrow> Inl TypeError)))))))"

definition etherscan_parse_tx :: "builtins \<Rightarrow> net \<Rightarrow> string \<Rightarrow> json \<Rightarrow> TransactionData io" where
  "etherscan_parse_tx py net timestamp_url json_response reqs =
     (case etherscan_fields py timestamp_url json_response of
        Inl e \<Rightarrow> (Inl e, reqs)
      | Inr (key, s, block_no, ts_url) \<Rightarrow>
          (case requests_get net ts_url reqs of
             (Inl e, reqs') \<Rightarrow> (Inl e, reqs')
           | (Inr (status_code, body), reqs') \<Rightarrow>
               if status_code \<noteq> 200
               then (Inl (InvalidTransactionError
                            (Msg (''error looking up block timestamp='' @ block_no))), reqs')
               else (and_then (r_json body) (\<lambda>j.
                     and_then (getitem j ''result'') (\<lambda>res.
                     and_then (getitem res ''timeStamp'') (\<lambda>date_time.
                     and_then (py_int py date_time) (\<lambda>t.
                       Inr \<lparr>signing_key = key, script = s, date_time_utc = JInt t,
                            revoked_addresses = None\<rparr>)))), reqs')))"

subsection \<open>FallbackConnector.lookup_tx\<close>

text \<open>
  The loop calls \<open>lookup_tx\<close> of each connector of \<open>self.connectors\<close>, whatever its
  class: a connector is taken here as what its \<open>lookup_tx\<close> does.
\<close>

type_synonym adapter = "string \<Rightarrow> pyval io"

fun fallback_loop :: "adapter list \<Rightarrow> string \<Rightarrow> exn list \<Rightarrow> pyval io" where
  "fallback_loop [] txid exceptions reqs =
     (Inl (InvalidTransactionError (Exceptions exceptions)), reqs)"
| "fallback_loop (connector # connectors) txid exceptions reqs =
     (case connector txid reqs of
        (Inr response, reqs') \<Rightarrow>
          if truthy_val response then (Inr response, reqs')
          else fallback_loop connectors txid exceptions reqs'
      | (Inl e, reqs') \<Rightarrow> fallback_loop connectors txid (exceptions @ [e]) reqs')"

definition fallback_lookup_tx :: "adapter list \<Rightarrow> adapter" where
  "fallback_lookup_tx connectors txid reqs = fallback_loop connectors txid [] reqs"

subsection \<open>The connectors and the factory\<close>

datatype connector =
    MockConnector Chain
  | FallbackConnector Chain "connector list"
  | BlockchainInfoConnector string
  | BlockcypherConnector string
  | EtherscanConnector string string

text \<open>\<open>TransactionLookupConnector.lookup_tx\<close>: \<open>fetch_tx\<close>, then \<open>parse_tx\<close>.\<close>

definition fetch_then_parse :: "net \<Rightarrow> string \<Rightarrow> (json \<Rightarrow> TransactionData io) \<Rightarrow> adapter" where
  "fetch_then_parse net url parse_tx txid reqs =
     (case fetch_tx net url txid reqs of
        (Inl e, reqs') \<Rightarrow> (Inl e, reqs')
      | (Inr json_response, reqs') \<Rightarrow>
          (case parse_tx json_response reqs' of
             (Inl e, reqs'') \<Rightarrow> (Inl e, reqs'')
           | (Inr t, reqs'') \<Rightarrow> (Inr (Tx t), reqs'')))"

fun lookup_tx :: "builtins \<Rightarrow> net \<Rightarrow> connector \<Rightarrow> adapter" where
  "lookup_tx py net (MockConnector chain) = (\<lambda>txid reqs. (Inr (PyBool True), reqs))"
| "lookup_tx py net (FallbackConnector chain connectors) =
     fallback_lookup_tx (map (\<lambda>c. lookup_tx py net c) connectors)"
| "lookup_tx py net (BlockchainInfoConnector url) =
     fetch_then_parse net url (\<lambda>j reqs. (blockchain_info_parse_tx py j, reqs))"
| "lookup_tx py net (BlockcypherConnector url) =
     fetch_then_parse net url (\<lambda>j reqs. (blockcypher_parse_tx py j, reqs))"
| "lookup_tx py net (EtherscanConnector url timestamp_url) =
     fetch_then_parse net url (etherscan_parse_tx py net timestamp_url)"

definition new_FallbackConnector :: "Chain \<Rightarrow> exn + connector" where
  "new_FallbackConnector chain =
     and_then (BlockchainInfoConnector_url chain) (\<lambda>u1.
     and_then (BlockcypherConnector_url chain) (\<lambda>u2.
       Inr (FallbackConnector chain [BlockchainInfoConnector u1, BlockcypherConnector u2])))"

definition new_EtherscanConnector :: "Chain \<Rightarrow> string \<Rightarrow> exn + connector" where
  "new_EtherscanConnector chain api_key =
     and_then (EtherscanConnector_urls chain api_key) (\<lambda>urls.
       Inr (EtherscanConnector (fst urls) (snd urls)))"

text \<open>\<open>options\<close> is \<open>None\<close> or a dict, here of strings.\<close>

definition createTransactionLookupConnector ::
    "Chain \<Rightarrow> (string \<times> string) list option \<Rightarrow> exn + connector" where
  "createTransactionLookupConnector chain options =
     (if chain = mockchain \<or> chain = bitcoin_regtest then Inr (MockConnector chain)
      else if blockchain_type chain = ethereum
      then new_EtherscanConnector chain
             (case options of
                None \<Rightarrow> ''''
              | Some kvs \<Rightarrow>
                  (case map_of kvs ''etherscan_api_token'' of None \<Rightarrow> '''' | Some t \<Rightarrow> t))
      else new_FallbackConnector chain)"

section \<open>Issuer information\<close>

definition get_remote_json :: "net \<Rightarrow> string \<Rightarrow> json io" where
  "get_remote_json net the_url reqs =
     (case requests_get net the_url reqs of
        (Inl e, reqs') \<Rightarrow> (Inl e, reqs')
      | (Inr (status_code, body), reqs') \<Rightarrow>
          if status_code \<noteq> 200 then (Inr JNull, reqs') else (r_json body, reqs'))"

definition get_field_or_default :: "json \<Rightarrow> string \<Rightarrow> exn + json" where
  "get_field_or_default data field_name =
     and_then (contains field_name data) (\<lambda>present.
       if present then getitem data field_name else Inr JNull)"

text \<open>
  Modelled from the spec: the enumeration \<open>BlockcertVersion\<close> of the package
  \<open>cert_core\<close>, the classes \<open>IssuerKey\<close> and \<open>IssuerInfo\<close> of the package's \<open>__init__\<close>
  module and the certificate model are not among the sources. The spec has V1 and
  V2/V2-alpha documents, and the two classes as data-only records; a field that the
  caller does not pass to the constructor is \<open>None\<close> here, a field that it passes is
  \<open>Some\<close> of the value, which may be Python's \<open>None\<close> (\<open>JNull\<close>).
\<close>

datatype BlockcertVersion = V1_1 | V1_2 | V2_ALPHA | V2

record certificate_model =
  issuer_id :: string
  version :: BlockcertVersion
  certificate_json :: json

record IssuerKey =
  public_key :: json
  created :: "json option"
  expires :: "json option"
  revoked :: "json option"

record IssuerInfo =
  issuer_keys :: "IssuerKey list"
  revocation_keys :: "IssuerKey list option"
  revoked_assertions :: "json list option"

text \<open>
  The list \<open>revoked_assertions\<close> that \<open>get_issuer_info\<close> collects from the revocation
  list of the certificate. A URL that is not a string makes \<open>requests.get\<close> raise before
  any request.
\<close>

definition revoked_ids :: "json \<Rightarrow> exn + json list" where
  "revoked_ids revoked_json =
     (if \<not> truthy revoked_json then Inr []
      else and_then (getitem revoked_json ''revokedAssertions'') (\<lambda>ra.
           if \<not> truthy ra then Inr []
           else and_then (iter ra) (\<lambda>rs.
                for_each (\<lambda>r ids. and_then (getitem r ''id'') (\<lambda>i. Inr (ids @ [i]))) rs [])))"

definition collect_revoked_assertions :: "net \<Rightarrow> certificate_model \<Rightarrow> json list io" where
  "collect_revoked_assertions net certificate_model reqs =
     (if version certificate_model = V2 \<or> version certificate_model = V2_ALPHA
      then (case and_then (getitem (certificate_json certificate_model) ''badge'') (\<lambda>badge.
                 and_then (getitem badge ''issuer'') (\<lambda>issuer.
                 and_then (contains ''revocationList'' issuer) (\<lambda>present.
                   if present
                   then and_then (getitem issuer ''revocationList'') (\<lambda>u. Inr (Some u))
                   else Inr None))) of
              Inl e \<Rightarrow> (Inl e, reqs)
            | Inr None \<Rightarrow> (Inr [], reqs)
            | Inr (Some (JStr revocation_url)) \<Rightarrow>
                (case get_remote_json net revocation_url reqs of
                   (Inl e, reqs') \<Rightarrow> (Inl e, reqs')
                 | (Inr revoked_json, reqs') \<Rightarrow> (revoked_ids revoked_json, reqs'))
            | Inr (Some u) \<Rightarrow> (Inl RequestException, reqs))
      else (Inr [], reqs))"

text \<open>One entry of \<open>publicKey\<close> (key under \<open>id\<close>) or of \<open>publicKeys\<close> (key under \<open>publicKey\<close>).\<close>

definition issuer_key_entry :: "string \<Rightarrow> string \<Rightarrow> json \<Rightarrow> IssuerKey list \<Rightarrow> exn + IssuerKey list" where
  "issuer_key_entry PUBKEY_PREFIX field entry keys =
     and_then (getitem entry field) (\<lambda>k.
     and_then (slice_from (length PUBKEY_PREFIX) k) (\<lambda>pk.
     and_then (get_field_or_default entry ''created'') (\<lambda>c.
     and_then (get_field_or_default entry ''expires'') (\<lambda>e.
     and_then (get_field_or_default entry ''revoked'') (\<lambda>r.
       Inr (keys @ [\<lparr>public_key = pk, created = Some c, expires = Some e,
                      revoked = Some r\<rparr>]))))))"

definition key_only :: "json \<Rightarrow> IssuerKey" where
  "key_only k = \<lparr>public_key = k, created = None, expires = None, revoked = None\<rparr>"

definition first_key :: "json \<Rightarrow> string \<Rightarrow> exn + IssuerKey" where
  "first_key issuer_json field =
     and_then (getitem issuer_json field) (\<lambda>ks.
     and_then (getitem0 ks) (\<lambda>k0.
     and_then (getitem k0 ''key'') (\<lambda>k. Inr (key_only k))))"

text \<open>
  The part of \<open>get_issuer_info\<close> after the two fetches. The constant \<open>PUBKEY_PREFIX\<close> of
  \<open>cert_core\<close> is a parameter.
\<close>

definition issuer_info_of :: "string \<Rightarrow> json \<Rightarrow> json list \<Rightarrow> exn + IssuerInfo" where
  "issuer_info_of PUBKEY_PREFIX issuer_json revoked_list =
     and_then (contains ''@context'' issuer_json) (\<lambda>has_context.
       if has_context
       then and_then
              (and_then (contains ''publicKey'' issuer_json) (\<lambda>has_publicKey.
                 if has_publicKey
                 then and_then (getitem issuer_json ''publicKey'') (\<lambda>ks.
                      and_then (iter ks) (\<lambda>entries.
                        for_each (issuer_key_entry PUBKEY_PREFIX ''id'') entries []))
                 else and_then (contains ''publicKeys'' issuer_json) (\<lambda>has_publicKeys.
                      if has_publicKeys
                      then and_then (getitem issuer_json ''publicKeys'') (\<lambda>ks.
                           and_then (iter ks) (\<lambda>entries.
                             for_each (issuer_key_entry PUBKEY_PREFIX ''publicKey'') entries []))
                      else Inr [])))
              (\<lambda>keys. Inr \<lparr>issuer_keys = keys, revocation_keys = None,
                            revoked_assertions = Some revoked_list\<rparr>)
       else and_then (first_key issuer_json ''issuerKeys'') (\<lambda>issuer_key.
            if revoked_list \<noteq> []
            then Inr \<lparr>issuer_keys = [issuer_key], revocation_keys = None,
                      revoked_assertions = Some revoked_list\<rparr>
            else and_then (first_key issuer_json ''revocationKeys'') (\<lambda>revocation_key.
                 Inr \<lparr>issuer_keys = [issuer_key], revocation_keys = Some [revocation_key],
                      revoked_assertions = None\<rparr>)))"

definition get_issuer_info :: "string \<Rightarrow> net \<Rightarrow> certificate_model \<Rightarrow> IssuerInfo io" where
  "get_issuer_info PUBKEY_PREFIX net certificate_model reqs =
     (case get_remote_json net (issuer_id certificate_model) reqs of
        (Inl e, reqs1) \<Rightarrow> (Inl e, reqs1)
      | (Inr issuer_json, reqs1) \<Rightarrow>
          if \<not> truthy issuer_json
          then (Inl (Exception (''Issuer URL returned no results '' @ issuer_id certificate_model)),
                reqs1)
          else (case collect_revoked_assertions net certificate_model reqs1 of
                  (Inl e, reqs2) \<Rightarrow> (Inl e, reqs2)
                | (Inr revoked_list, reqs2) \<Rightarrow>
                    (issuer_info_of PUBKEY_PREFIX issuer_json revoked_list, reqs2)))"

section \<open>Notions used in the statements\<close>

text \<open>
  The outcomes of the connectors of a list when each is called in turn, each on the log
  that the one before left, and the log after the last.
\<close>

fun run_all :: "adapter list \<Rightarrow> string \<Rightarrow> string list \<Rightarrow> (exn + pyval) list \<times> string list" where
  "run_all [] txid reqs = ([], reqs)"
| "run_all (c # cs) txid reqs =
     (case c txid reqs of
        (out, reqs') \<Rightarrow> (case run_all cs txid reqs' of (outs, reqs'') \<Rightarrow> (out # outs, reqs'')))"

text \<open>A connector fails when it raises or returns an empty result.\<close>

fun failed :: "exn + pyval \<Rightarrow> bool" where
  "failed (Inl e) = True"
| "failed (Inr response) = (\<not> truthy_val response)"

text \<open>The exceptions among the outcomes, in their order.\<close>

fun raised :: "(exn + pyval) list \<Rightarrow> exn list" where
  "raised [] = []"
| "raised (Inl e # outs) = e # raised outs"
| "raised (Inr response # outs) = raised outs"

text \<open>
  Two notions that only the proofs use, stated through the test of the loop itself: a
  response none of whose outputs passes that test.
\<close>

definition no_zero_value_output :: "(json \<Rightarrow> exn + bool) \<Rightarrow> string \<Rightarrow> json \<Rightarrow> bool" where
  "no_zero_value_output zero_value field json_response =
     (case outputs_of field json_response of
        Inl e \<Rightarrow> True
      | Inr outs \<Rightarrow> list_all (\<lambda>out. zero_value out \<noteq> Inr True) outs)"

text \<open>
  An output on which the body of the loop raises nothing and leaves the script as it is.
\<close>

definition plain_output ::
    "(json \<Rightarrow> json option \<times> json set \<Rightarrow> exn + json option \<times> json set) \<Rightarrow> json \<Rightarrow> bool" where
  "plain_output body out =
     (case body out (None, {}) of Inr (None, addrs) \<Rightarrow> True | _ \<Rightarrow> False)"

text \<open>
  The notions of the claims about the UTXO-style responses, stated on the JSON of the
  response and not through the tests of the code. The entry of a dict under a key, none
  for a value that is no dict.
\<close>

definition field_of :: "string \<Rightarrow> json \<Rightarrow> json option" where
  "field_of k j = (case j of JObj kvs \<Rightarrow> map_of kvs k | _ \<Rightarrow> None)"

text \<open>An output of zero value: its \<open>value\<close> is the number zero, an int or a float.\<close>

definition zero_value_output :: "json \<Rightarrow> bool" where
  "zero_value_output out =
     (field_of ''value'' out = Some (JInt 0) \<or> field_of ''value'' out = Some (JFloat (Finite 0)))"

text \<open>The outputs of a response: the list under the key of the outputs.\<close>

definition response_outputs :: "string \<Rightarrow> json \<Rightarrow> json list" where
  "response_outputs k j = (case field_of k j of Some (JList outs) \<Rightarrow> outs | _ \<Rightarrow> [])"

text \<open>
  An output whose \<open>value\<close> is absent or a number other than zero, and one whose
  \<open>value\<close> is absent or a number of magnitude at least one (an infinity or a NaN, on
  which the conversion to an int raises, among them).
\<close>

definition value_not_zero :: "json \<Rightarrow> bool" where
  "value_not_zero out =
     (case field_of ''value'' out of
        None \<Rightarrow> True
      | Some (JInt n) \<Rightarrow> n \<noteq> 0
      | Some (JFloat x) \<Rightarrow> x \<noteq> Finite 0
      | _ \<Rightarrow> False)"

definition value_at_least_one :: "json \<Rightarrow> bool" where
  "value_at_least_one out =
     (case field_of ''value'' out of
        None \<Rightarrow> True
      | Some (JInt n) \<Rightarrow> n \<noteq> 0
      | Some (JFloat (Finite q)) \<Rightarrow> 1 \<le> \<bar>q\<bar>
      | Some (JFloat x) \<Rightarrow> True
      | _ \<Rightarrow> False)"

text \<open>
  The outputs of a synthetic response that are not the output of zero value. For
  blockchain.info: a dict whose \<open>value\<close> is absent or a finite number of magnitude at
  least one, whose \<open>spent\<close> is absent or a bool and whose \<open>addr\<close> is absent or a
  string. For blockcypher: a dict whose \<open>value\<close> is absent or a number other than zero
  (an int in the range of a float), whose \<open>spent_by\<close> is absent, \<open>None\<close> or a string, and,
  where that string is not empty, whose \<open>addresses\<close> is a list that starts with a string.
\<close>

definition blockchain_info_other :: "json \<Rightarrow> bool" where
  "blockchain_info_other out =
     (case out of
        JObj kvs \<Rightarrow>
          (case map_of kvs ''value'' of
             None \<Rightarrow> True
           | Some (JInt n) \<Rightarrow> n \<noteq> 0
           | Some (JFloat (Finite q)) \<Rightarrow> 1 \<le> \<bar>q\<bar>
           | _ \<Rightarrow> False)
          \<and> (case map_of kvs ''spent'' of None \<Rightarrow> True | Some (JBool b) \<Rightarrow> True | _ \<Rightarrow> False)
          \<and> (case map_of kvs ''addr'' of None \<Rightarrow> True | Some (JStr a) \<Rightarrow> True | _ \<Rightarrow> False)
      | _ \<Rightarrow> False)"

definition blockcypher_other :: "json \<Rightarrow> bool" where
  "blockcypher_other out =
     (case out of
        JObj kvs \<Rightarrow>
          (case map_of kvs ''value'' of
             None \<Rightarrow> True
           | Some (JInt n) \<Rightarrow> n \<noteq> 0 \<and> \<bar>n\<bar> < 2 ^ 1024 - 2 ^ 970
           | Some (JFloat x) \<Rightarrow> x \<noteq> Finite 0
           | _ \<Rightarrow> False)
          \<and> (case map_of kvs ''spent_by'' of
                None \<Rightarrow> True
              | Some JNull \<Rightarrow> True
              | Some (JStr s) \<Rightarrow>
                  s = [] \<or> (case map_of kvs ''addresses'' of
                              Some (JList (JStr a # addrs)) \<Rightarrow> True
                            | _ \<Rightarrow> False)
              | _ \<Rightarrow> False)
      | _ \<Rightarrow> False)"

text \<open>
  The shape of a response: a dict with the time, the list of the outputs, and a list of
  inputs whose first has the signing address (for blockchain.info under
  \<open>prev_out\<close> and \<open>addr\<close>, for blockcypher as the first of \<open>addresses\<close>).
\<close>

definition blockchain_info_shape :: "json \<Rightarrow> json \<Rightarrow> json \<Rightarrow> json list \<Rightarrow> bool" where
  "blockchain_info_shape j time key outs =
     (field_of ''time'' j = Some time \<and> field_of ''out'' j = Some (JList outs)
      \<and> (case field_of ''inputs'' j of
            Some (JList (input # inputs)) \<Rightarrow>
              (case field_of ''prev_out'' input of
                 Some prev_out \<Rightarrow> field_of ''addr'' prev_out = Some key
               | None \<Rightarrow> False)
          | _ \<Rightarrow> False))"

definition blockcypher_shape :: "json \<Rightarrow> json \<Rightarrow> json \<Rightarrow> json list \<Rightarrow> bool" where
  "blockcypher_shape j time key outs =
     (field_of ''received'' j = Some time \<and> field_of ''outputs'' j = Some (JList outs)
      \<and> (case field_of ''inputs'' j of
            Some (JList (input # inputs)) \<Rightarrow>
              (case field_of ''addresses'' input of
                 Some (JList (k # addrs)) \<Rightarrow> k = key
               | _ \<Rightarrow> False)
          | _ \<Rightarrow> False))"

text \<open>
  String conversions for the examples: the three strings that the examples convert, as
  Python converts them.
\<close>

definition example_builtins :: builtins where
  "example_builtins =
     \<lparr>int_of_str = (\<lambda>s. if s = ''1500000000'' then Some 1500000000 else None),
      float_of_str_is_zero = (\<lambda>s. if s = ''0'' then Some True else None),
      int16_of_str = (\<lambda>s. if s = ''0x10'' then Some 16 else None),
      str_of_int = (\<lambda>n. if n = 16 then ''16'' else ''0'')\<rparr>"

text \<open>Responses, networks and connectors for the examples.\<close>

definition example_blockchain_info_response :: json where
  "example_blockchain_info_response =
     JObj [(''time'', JInt 1500000000),
           (''inputs'', JList [JObj [(''prev_out'', JObj [(''addr'', JStr ''addrA'')])]]),
           (''out'', JList
              [JObj [(''value'', JInt 0), (''script'', JStr ''6a20abcd'')],
               JObj [(''value'', JInt 5), (''spent'', JBool True), (''addr'', JStr ''addrB'')]])]"

definition example_blockcypher_response :: json where
  "example_blockcypher_response =
     JObj [(''received'', JStr ''2017-07-14T02:40:00Z''),
           (''inputs'', JList [JObj [(''addresses'', JList [JStr ''addrA''])]]),
           (''outputs'', JList
              [JObj [(''value'', JInt 0), (''data_hex'', JStr ''abcd'')],
               JObj [(''value'', JInt 5), (''spent_by'', JStr ''tx9''),
                     (''addresses'', JList [JStr ''addrB''])]])]"

text \<open>A network on which every request is answered with status 404.\<close>

definition net_404 :: net where
  "net_404 = (\<lambda>n url. Response 404 None)"

text \<open>A network on which only the second request is answered with 200, by the blockcypher example.\<close>

definition net_second_only :: net where
  "net_second_only =
     (\<lambda>n url. if n = 1 then Response 200 (Some example_blockcypher_response)
               else Response 404 None)"


text \<open>
  A network that answers the first request with a transaction of the account-based
  explorer and the second with the timestamp of its block.
\<close>

definition example_etherscan_response :: json where
  "example_etherscan_response =
     JObj [(''result'', JObj [(''from'', JStr ''0xabc''), (''input'', JStr ''0x1234''),
                             (''blockNumber'', JStr ''0x10'')])]"

definition net_etherscan :: net where
  "net_etherscan =
     (\<lambda>n url. if n = 0 then Response 200 (Some example_etherscan_response)
               else Response 200
                      (Some (JObj [(''result'', JObj [(''timeStamp'', JStr ''1500000000'')])])))"

text \<open>Networks that answer every request with the example of one UTXO-style provider.\<close>

definition net_blockchain_info :: net where
  "net_blockchain_info = (\<lambda>n url. Response 200 (Some example_blockchain_info_response))"

definition net_blockcypher :: net where
  "net_blockcypher = (\<lambda>n url. Response 200 (Some example_blockcypher_response))"

text \<open>
  Responses with no output of zero value (two of them, that differ in the value of
  their output), and responses whose only output of zero value has an empty payload.
\<close>

definition blockchain_info_no_data :: "int \<Rightarrow> json" where
  "blockchain_info_no_data v =
     JObj [(''time'', JInt 1500000000),
           (''inputs'', JList [JObj [(''prev_out'', JObj [(''addr'', JStr ''addrA'')])]]),
           (''out'', JList [JObj [(''value'', JInt v), (''addr'', JStr ''addrB'')]])]"

definition blockcypher_no_data :: "int \<Rightarrow> json" where
  "blockcypher_no_data v =
     JObj [(''received'', JStr ''2017-07-14T02:40:00Z''),
           (''inputs'', JList [JObj [(''addresses'', JList [JStr ''addrA''])]]),
           (''outputs'', JList [JObj [(''value'', JInt v), (''addresses'', JList [JStr ''addrB''])]])]"

definition blockchain_info_empty_payload :: json where
  "blockchain_info_empty_payload =
     JObj [(''time'', JInt 1500000000),
           (''inputs'', JList [JObj [(''prev_out'', JObj [(''addr'', JStr ''addrA'')])]]),
           (''out'', JList
              [JObj [(''value'', JInt 0), (''script'', JStr ''6a'')],
               JObj [(''value'', JInt 5), (''addr'', JStr ''addrB'')]])]"

definition blockcypher_empty_payload :: json where
  "blockcypher_empty_payload =
     JObj [(''received'', JStr ''2017-07-14T02:40:00Z''),
           (''inputs'', JList [JObj [(''addresses'', JList [JStr ''addrA''])]]),
           (''outputs'', JList
              [JObj [(''value'', JInt 0), (''data_hex'', JStr [])],
               JObj [(''value'', JInt 5), (''addresses'', JList [JStr ''addrB''])]])]"

text \<open>
  A certificate whose issuer is at \<open>http://i/profile\<close> and whose revocation list is at
  \<open>http://i/revoked\<close>; issuer profiles of the current format, of the v2-alpha format, of
  the legacy format (with and without revocation keys) and one with the \<open>@context\<close>
  marker only; a revocation list; a network that answers the first request with a
  profile and every later one with a given reply.
\<close>

definition example_certificate :: "BlockcertVersion \<Rightarrow> certificate_model" where
  "example_certificate v =
     \<lparr>issuer_id = ''http://i/profile'', version = v,
      certificate_json =
        JObj [(''badge'', JObj [(''issuer'',
                JObj [(''id'', JStr ''http://i/profile''),
                      (''revocationList'', JStr ''http://i/revoked'')])])]\<rparr>"

definition example_profile :: json where
  "example_profile =
     JObj [(''@context'', JStr ''https://w3id.org/openbadges/v2''),
           (''publicKey'', JList
              [JObj [(''id'', JStr ''ecdsa-koblitz-pubkey:1ABC''),
                     (''created'', JStr ''2017-06-29'')]])]"

definition example_profile_v1 :: json where
  "example_profile_v1 =
     JObj [(''issuerKeys'', JList [JObj [(''date'', JStr ''2016-05-01''), (''key'', JStr ''1ABC'')]]),
           (''revocationKeys'', JList [JObj [(''date'', JStr ''2016-05-01''), (''key'', JStr ''1REV'')]])]"

definition example_profile_no_keys :: json where
  "example_profile_no_keys = JObj [(''@context'', JStr ''https://w3id.org/openbadges/v2'')]"

definition example_revocation_list :: json where
  "example_revocation_list =
     JObj [(''revokedAssertions'', JList [JObj [(''id'', JStr ''urn:uuid:1'')]])]"

definition net_issuer :: "json \<Rightarrow> reply \<Rightarrow> net" where
  "net_issuer profile r = (\<lambda>n url. if n = 0 then Response 200 (Some profile) else r)"

definition example_profile_alpha :: json where
  "example_profile_alpha =
     JObj [(''@context'', JStr ''https://w3id.org/openbadges/v2''),
           (''publicKeys'', JList
              [JObj [(''publicKey'', JStr ''ecdsa-koblitz-pubkey:1ABC'')]])]"

definition example_profile_v1_keys_only :: json where
  "example_profile_v1_keys_only =
     JObj [(''issuerKeys'', JList [JObj [(''date'', JStr ''2016-05-01''), (''key'', JStr ''1ABC'')]])]"

text \<open>A network on which only the first request is answered with 200, by an empty object.\<close>

definition net_first_only :: net where
  "net_first_only = (\<lambda>n url. if n = 0 then Response 200 (Some (JObj [])) else Response 404 None)"

text \<open>
  A response of blockchain.info whose only output has the value 0.5, and one with an
  output of value 0 followed by an output of value 0.5, each output with a script.
\<close>

definition blockchain_info_fraction :: json where
  "blockchain_info_fraction =
     JObj [(''time'', JInt 1500000000),
           (''inputs'', JList [JObj [(''prev_out'', JObj [(''addr'', JStr ''addrA'')])]]),
           (''out'', JList
              [JObj [(''value'', JFloat (Finite (1 / 2))), (''script'', JStr ''6a20abcd'')]])]"

definition blockchain_info_two_payloads :: json where
  "blockchain_info_two_payloads =
     JObj [(''time'', JInt 1500000000),
           (''inputs'', JList [JObj [(''prev_out'', JObj [(''addr'', JStr ''addrA'')])]]),
           (''out'', JList
              [JObj [(''value'', JInt 0), (''script'', JStr ''6a20aaaa'')],
               JObj [(''value'', JFloat (Finite (1 / 2))), (''script'', JStr ''6a20bbbb'')]])]"

section \<open>Evaluation of the Python operations\<close>

lemma and_then_Inr [simp]: "and_then (Inr x) f = f x"
  by (simp add: and_then_def)

lemma and_then_Inl [simp]: "and_then (Inl e) f = Inl e"
  by (simp add: and_then_def)

lemma and_then_eq_Inr: "and_then m f = Inr y \<longleftrightarrow> (\<exists>x. m = Inr x \<and> f x = Inr y)"
  by (cases m) simp_all

lemma fetch_then_parse_Inr:
  "fetch_then_parse net url parse_tx txid reqs = (Inr v, reqs') \<Longrightarrow>
   \<exists>j l t. parse_tx j l = (Inr t, reqs') \<and> v = Tx t"
  by (auto simp: fetch_then_parse_def split: sum.splits prod.splits)

lemmas parse_defs =
  blockcypher_parse_tx_def blockchain_info_parse_tx_def blockcypher_out_def
  blockcypher_header_def blockchain_info_header_def outputs_of_def
  blockcypher_payload_def blockchain_info_payload_def
  blockchain_info_out_def blockcypher_zero_value_def blockchain_info_zero_value_def
  script_or_raise_def missing_script_def example_builtins_def
  example_blockcypher_response_def example_blockchain_info_response_def

lemmas io_defs =
  fetch_tx_def requests_get_def r_json_def fetch_then_parse_def
  fallback_lookup_tx_def net_404_def net_first_only_def net_second_only_def

section \<open>The fallback connector\<close>

lemma length_raised: "length (raised outs) \<le> length outs"
  by (induction outs rule: raised.induct) simp_all

lemma length_raised_all: "list_all isl outs \<Longrightarrow> length (raised outs) = length outs"
  by (induction outs rule: raised.induct) simp_all

lemma raised_all_raise: "list_all isl outs \<Longrightarrow> map Inl (raised outs) = outs"
  by (induction outs rule: raised.induct) simp_all

lemma length_run_all: "length (fst (run_all cs txid reqs)) = length cs"
proof (induction cs arbitrary: reqs)
  case Nil
  show ?case by simp
next
  case (Cons c cs)
  obtain out reqs' where c: "c txid reqs = (out, reqs')"
    by (cases "c txid reqs")
  obtain outs reqs'' where r: "run_all cs txid reqs' = (outs, reqs'')"
    by (cases "run_all cs txid reqs'")
  from Cons.IH [of reqs'] r have "length outs = length cs" by simp
  with c r show ?case by simp
qed

text \<open>
  Past connectors that all fail, the loop goes on with the rest of the list, the
  exceptions of those that raised appended to the collected ones.
\<close>

lemma fallback_loop_skip:
  "list_all failed (fst (run_all pre txid reqs)) \<Longrightarrow>
   fallback_loop (pre @ cs) txid exceptions reqs =
     fallback_loop cs txid (exceptions @ raised (fst (run_all pre txid reqs)))
       (snd (run_all pre txid reqs))"
proof (induction pre arbitrary: exceptions reqs)
  case Nil
  then show ?case by simp
next
  case (Cons c pre)
  obtain out reqs' where c: "c txid reqs = (out, reqs')"
    by (cases "c txid reqs")
  obtain outs reqs'' where r: "run_all pre txid reqs' = (outs, reqs'')"
    by (cases "run_all pre txid reqs'")
  from Cons.prems c r have f: "failed out" and fs: "list_all failed (fst (run_all pre txid reqs'))"
    by simp_all
  show ?case
  proof (cases out)
    case (Inl e)
    with Cons.IH [OF fs, of "exceptions @ [e]"] c r show ?thesis by simp
  next
    case (Inr response)
    with f have "\<not> truthy_val response" by simp
    with Cons.IH [OF fs, of exceptions] c r Inr show ?thesis by simp
  qed
qed

lemma fallback_loop_truthy:
  "fallback_loop cs txid exceptions reqs = (Inr v, reqs') \<Longrightarrow> truthy_val v"
proof (induction cs arbitrary: exceptions reqs)
  case Nil
  then show ?case by simp
next
  case (Cons c cs)
  obtain out reqs1 where c: "c txid reqs = (out, reqs1)"
    by (cases "c txid reqs")
  show ?case
  proof (cases out)
    case (Inl e)
    with Cons.prems c have "fallback_loop cs txid (exceptions @ [e]) reqs1 = (Inr v, reqs')"
      by simp
    then show ?thesis by (rule Cons.IH)
  next
    case (Inr response)
    show ?thesis
    proof (cases "truthy_val response")
      case True
      with Cons.prems c Inr show ?thesis by simp
    next
      case False
      with Cons.prems c Inr have "fallback_loop cs txid exceptions reqs1 = (Inr v, reqs')"
        by simp
      then show ?thesis by (rule Cons.IH)
    qed
  qed
qed

text \<open>
  What the \<open>lookup_tx\<close> of a connector returns is never empty: \<open>True\<close> for the mock
  connector, a record for the three providers, a non-empty result of one of its
  connectors for the fallback connector.
\<close>

lemma lookup_tx_truthy:
  "lookup_tx py net c txid reqs = (Inr v, reqs') \<Longrightarrow> truthy_val v"
proof (cases c)
  case (MockConnector chain)
  then show "lookup_tx py net c txid reqs = (Inr v, reqs') \<Longrightarrow> truthy_val v"
    by auto
next
  case (FallbackConnector chain cs)
  then show "lookup_tx py net c txid reqs = (Inr v, reqs') \<Longrightarrow> truthy_val v"
    by (auto simp: fallback_lookup_tx_def dest: fallback_loop_truthy)
next
  case (BlockchainInfoConnector url)
  then show "lookup_tx py net c txid reqs = (Inr v, reqs') \<Longrightarrow> truthy_val v"
    by (auto dest!: fetch_then_parse_Inr)
next
  case (BlockcypherConnector url)
  then show "lookup_tx py net c txid reqs = (Inr v, reqs') \<Longrightarrow> truthy_val v"
    by (auto dest!: fetch_then_parse_Inr)
next
  case (EtherscanConnector url timestamp_url)
  then show "lookup_tx py net c txid reqs = (Inr v, reqs') \<Longrightarrow> truthy_val v"
    by (auto dest!: fetch_then_parse_Inr)
qed

text \<open>So a connector that fails has raised.\<close>

lemma connectors_fail_by_raising:
  "list_all failed (fst (run_all (map (\<lambda>c. lookup_tx py net c) cs) txid reqs)) \<Longrightarrow>
   list_all isl (fst (run_all (map (\<lambda>c. lookup_tx py net c) cs) txid reqs))"
proof (induction cs arbitrary: reqs)
  case Nil
  show ?case by simp
next
  case (Cons c cs)
  obtain out reqs1 where c: "lookup_tx py net c txid reqs = (out, reqs1)"
    by (cases "lookup_tx py net c txid reqs")
  obtain outs reqs2 where r: "run_all (map (\<lambda>c. lookup_tx py net c) cs) txid reqs1 = (outs, reqs2)"
    by (cases "run_all (map (\<lambda>c. lookup_tx py net c) cs) txid reqs1")
  from Cons.prems c r have f: "failed out"
    and fs: "list_all failed (fst (run_all (map (\<lambda>c. lookup_tx py net c) cs) txid reqs1))"
    by simp_all
  have "isl out"
  proof (cases out)
    case (Inl e)
    then show ?thesis by simp
  next
    case (Inr v)
    with c have "truthy_val v" by (auto dest: lookup_tx_truthy)
    with f Inr show ?thesis by simp
  qed
  with Cons.IH [OF fs] c r show ?case by simp
qed

text \<open>
  C1. When every connector of a fallback connector fails, its \<open>lookup_tx\<close> raises one
  \<open>InvalidTransactionError\<close> whose argument is the list of the failures of the
  connectors: the outcomes of the connectors, called in the order of the list, are
  these exceptions, one for each connector, so the list is as long as the list of the
  connectors.
\<close>

theorem fallback_all_fail:
  assumes "list_all failed (fst (run_all (map (\<lambda>c. lookup_tx py net c) connectors) txid reqs))"
  shows "lookup_tx py net (FallbackConnector chain connectors) txid reqs =
           (Inl (InvalidTransactionError (Exceptions
              (raised (fst (run_all (map (\<lambda>c. lookup_tx py net c) connectors) txid reqs))))),
            snd (run_all (map (\<lambda>c. lookup_tx py net c) connectors) txid reqs))
         \<and> map Inl (raised (fst (run_all (map (\<lambda>c. lookup_tx py net c) connectors) txid reqs)))
             = fst (run_all (map (\<lambda>c. lookup_tx py net c) connectors) txid reqs)
         \<and> length (raised (fst (run_all (map (\<lambda>c. lookup_tx py net c) connectors) txid reqs)))
             = length connectors"
proof -
  have a: "lookup_tx py net (FallbackConnector chain connectors) txid reqs =
           (Inl (InvalidTransactionError (Exceptions
              (raised (fst (run_all (map (\<lambda>c. lookup_tx py net c) connectors) txid reqs))))),
            snd (run_all (map (\<lambda>c. lookup_tx py net c) connectors) txid reqs))"
    using fallback_loop_skip [OF assms, of "[]" "[]"] by (simp add: fallback_lookup_tx_def)
  have i: "list_all isl (fst (run_all (map (\<lambda>c. lookup_tx py net c) connectors) txid reqs))"
    using assms by (rule connectors_fail_by_raising)
  have b: "map Inl (raised (fst (run_all (map (\<lambda>c. lookup_tx py net c) connectors) txid reqs)))
             = fst (run_all (map (\<lambda>c. lookup_tx py net c) connectors) txid reqs)"
    using i by (rule raised_all_raise)
  have c: "length (raised (fst (run_all (map (\<lambda>c. lookup_tx py net c) connectors) txid reqs)))
             = length connectors"
    using length_raised_all [OF i] by (simp add: length_run_all)
  from a b c show ?thesis by (intro conjI)
qed

text \<open>
  The fallback connector that the factory builds for the Bitcoin main net, on a network
  that answers the first request with an empty object and the second with status 404:
  the first connector raises \<open>KeyError\<close>, the second an \<open>InvalidTransactionError\<close>, and
  the list has the two, in this order.
\<close>

theorem fallback_all_fail_witness:
  "createTransactionLookupConnector bitcoin_mainnet None =
     Inr (FallbackConnector bitcoin_mainnet
            [BlockchainInfoConnector ''https://blockchain.info/rawtx/%s?cors=true'',
             BlockcypherConnector ''https://api.blockcypher.com/v1/btc/main/txs/%s?limit=100''])
   \<and> list_all failed
     (fst (run_all
        (map (\<lambda>c. lookup_tx example_builtins net_first_only c)
           [BlockchainInfoConnector ''https://blockchain.info/rawtx/%s?cors=true'',
            BlockcypherConnector ''https://api.blockcypher.com/v1/btc/main/txs/%s?limit=100''])
        ''t'' []))
   \<and> lookup_tx example_builtins net_first_only
        (FallbackConnector bitcoin_mainnet
           [BlockchainInfoConnector ''https://blockchain.info/rawtx/%s?cors=true'',
            BlockcypherConnector ''https://api.blockcypher.com/v1/btc/main/txs/%s?limit=100''])
        ''t'' []
      = (Inl (InvalidTransactionError (Exceptions
               [KeyError,
                InvalidTransactionError (Msg ''error looking up transaction_id=t'')])),
         [''https://blockchain.info/rawtx/t?cors=true'',
          ''https://api.blockcypher.com/v1/btc/main/txs/t?limit=100''])
   \<and> length [KeyError, InvalidTransactionError (Msg ''error looking up transaction_id=t'')]
      = length
          [BlockchainInfoConnector ''https://blockchain.info/rawtx/%s?cors=true'',
           BlockcypherConnector ''https://api.blockcypher.com/v1/btc/main/txs/%s?limit=100'']"
proof -
  have f: "createTransactionLookupConnector bitcoin_mainnet None =
     Inr (FallbackConnector bitcoin_mainnet
            [BlockchainInfoConnector ''https://blockchain.info/rawtx/%s?cors=true'',
             BlockcypherConnector ''https://api.blockcypher.com/v1/btc/main/txs/%s?limit=100''])"
    by (simp add: createTransactionLookupConnector_def new_FallbackConnector_def
          BlockchainInfoConnector_url_def BlockcypherConnector_url_def)
  have r: "run_all
        (map (\<lambda>c. lookup_tx example_builtins net_first_only c)
           [BlockchainInfoConnector ''https://blockchain.info/rawtx/%s?cors=true'',
            BlockcypherConnector ''https://api.blockcypher.com/v1/btc/main/txs/%s?limit=100''])
        ''t'' []
      = ([Inl KeyError,
          Inl (InvalidTransactionError (Msg ''error looking up transaction_id=t''))],
         [''https://blockchain.info/rawtx/t?cors=true'',
          ''https://api.blockcypher.com/v1/btc/main/txs/t?limit=100''])"
    by (simp add: io_defs parse_defs)
  have h: "list_all failed
     (fst (run_all
        (map (\<lambda>c. lookup_tx example_builtins net_first_only c)
           [BlockchainInfoConnector ''https://blockchain.info/rawtx/%s?cors=true'',
            BlockcypherConnector ''https://api.blockcypher.com/v1/btc/main/txs/%s?limit=100''])
        ''t'' []))"
    unfolding r by simp
  note t = fallback_all_fail
    [where py = example_builtins and net = net_first_only and txid = "''t''" and reqs = "[]"
       and chain = bitcoin_mainnet
       and connectors =
         "[BlockchainInfoConnector ''https://blockchain.info/rawtx/%s?cors=true'',
           BlockcypherConnector ''https://api.blockcypher.com/v1/btc/main/txs/%s?limit=100'']",
     OF h]
  from t have e: "lookup_tx example_builtins net_first_only
        (FallbackConnector bitcoin_mainnet
           [BlockchainInfoConnector ''https://blockchain.info/rawtx/%s?cors=true'',
            BlockcypherConnector ''https://api.blockcypher.com/v1/btc/main/txs/%s?limit=100''])
        ''t'' []
      = (Inl (InvalidTransactionError (Exceptions
               [KeyError,
                InvalidTransactionError (Msg ''error looking up transaction_id=t'')])),
         [''https://blockchain.info/rawtx/t?cors=true'',
          ''https://api.blockcypher.com/v1/btc/main/txs/t?limit=100''])"
    unfolding r by simp
  have l: "length [KeyError, InvalidTransactionError (Msg ''error looking up transaction_id=t'')]
      = length
          [BlockchainInfoConnector ''https://blockchain.info/rawtx/%s?cors=true'',
           BlockcypherConnector ''https://api.blockcypher.com/v1/btc/main/txs/%s?limit=100'']"
    by simp
  from f h e l show ?thesis by (intro conjI)
qed

text \<open>
  C2. The connectors are called in the order of the list. When the connectors before
  \<open>c\<close> all fail (each raises, or returns an empty result) and \<open>c\<close>, called on the log
  they left, returns a non-empty result, \<open>FallbackConnector.lookup_tx\<close> returns that
  result and raises nothing; the log is the one \<open>c\<close> left, whatever the connectors
  after \<open>c\<close> are: none of them is called.
\<close>

theorem fallback_first_success:
  assumes "list_all failed (fst (run_all pre txid reqs))"
      and "c txid (snd (run_all pre txid reqs)) = (Inr response, reqs')"
      and "truthy_val response"
  shows "fallback_lookup_tx (pre @ c # post) txid reqs = (Inr response, reqs')"
  using fallback_loop_skip [OF assms(1), of "c # post" "[]"] assms(2,3)
  by (simp add: fallback_lookup_tx_def)

text \<open>
  The first connector raises (status 404), the second returns a record, the third, which
  would return \<open>True\<close>, is not called: the log has two requests.
\<close>

theorem fallback_first_success_witness:
  "list_all failed
     (fst (run_all
        [lookup_tx example_builtins net_second_only (BlockchainInfoConnector ''http://a/%s'')]
        ''t'' []))
   \<and> truthy_val
        (Tx \<lparr>signing_key = JStr ''addrA'', script = JStr ''abcd'',
              date_time_utc = JStr ''2017-07-14T02:40:00Z'',
              revoked_addresses = Some {JStr ''addrB''}\<rparr>)
   \<and> fallback_lookup_tx
        ([lookup_tx example_builtins net_second_only (BlockchainInfoConnector ''http://a/%s'')]
         @ lookup_tx example_builtins net_second_only (BlockcypherConnector ''http://b/%s'')
         # [lookup_tx example_builtins net_second_only (MockConnector mockchain)])
        ''t'' []
      = (Inr (Tx \<lparr>signing_key = JStr ''addrA'', script = JStr ''abcd'',
                    date_time_utc = JStr ''2017-07-14T02:40:00Z'',
                    revoked_addresses = Some {JStr ''addrB''}\<rparr>),
         [''http://a/t'', ''http://b/t''])"
proof -
  have h1: "list_all failed
     (fst (run_all
        [lookup_tx example_builtins net_second_only (BlockchainInfoConnector ''http://a/%s'')]
        ''t'' []))"
    by (simp add: io_defs)
  have h2: "lookup_tx example_builtins net_second_only (BlockcypherConnector ''http://b/%s'') ''t''
       (snd (run_all
          [lookup_tx example_builtins net_second_only (BlockchainInfoConnector ''http://a/%s'')]
          ''t'' []))
     = (Inr (Tx \<lparr>signing_key = JStr ''addrA'', script = JStr ''abcd'',
                   date_time_utc = JStr ''2017-07-14T02:40:00Z'',
                   revoked_addresses = Some {JStr ''addrB''}\<rparr>),
        [''http://a/t'', ''http://b/t''])"
    by (simp add: io_defs parse_defs)
  have h3: "truthy_val
        (Tx \<lparr>signing_key = JStr ''addrA'', script = JStr ''abcd'',
              date_time_utc = JStr ''2017-07-14T02:40:00Z'',
              revoked_addresses = Some {JStr ''addrB''}\<rparr>)"
    by simp
  from fallback_first_success
         [where pre = "[lookup_tx example_builtins net_second_only
                          (BlockchainInfoConnector ''http://a/%s'')]"
            and c = "lookup_tx example_builtins net_second_only
                       (BlockcypherConnector ''http://b/%s'')"
            and txid = "''t''" and reqs = "[]"
            and post = "[lookup_tx example_builtins net_second_only (MockConnector mockchain)]",
          OF h1 h2 h3]
       h1 h3
  show ?thesis
    by blast
qed

section \<open>Fetching\<close>




section \<open>The factory and the mock connector\<close>

text \<open>
  C9, as amended. For the chains \<open>mockchain\<close> and \<open>bitcoin_regtest\<close> the factory returns
  the mock connector, and every lookup on the mock connector returns, with no request
  made (the log is unchanged), the constant \<open>True\<close>, which is not a transaction record.
\<close>

theorem mock_lookup:
  assumes "chain = mockchain \<or> chain = bitcoin_regtest"
  shows "createTransactionLookupConnector chain options = Inr (MockConnector chain)
         \<and> lookup_tx py net (MockConnector chain) txid reqs = (Inr (PyBool True), reqs)"
  using assms by (auto simp: createTransactionLookupConnector_def)

theorem mock_lookup_witness:
  "(bitcoin_regtest = mockchain \<or> bitcoin_regtest = bitcoin_regtest)
   \<and> createTransactionLookupConnector bitcoin_regtest None = Inr (MockConnector bitcoin_regtest)
   \<and> lookup_tx example_builtins net_404 (MockConnector bitcoin_regtest) ''t'' [''u'']
       = (Inr (PyBool True), [''u''])"
proof -
  have h: "bitcoin_regtest = mockchain \<or> bitcoin_regtest = bitcoin_regtest" by simp
  from mock_lookup [OF h, of None example_builtins net_404 "''t''" "[''u'']"] h
  show ?thesis by blast
qed

text \<open>
  C9 as stated fails: the lookup on the connector of the factory for \<open>mockchain\<close>
  returns \<open>True\<close>, not a record.
\<close>

theorem mock_lookup_returns_no_record:
  "createTransactionLookupConnector mockchain None = Inr (MockConnector mockchain)
   \<and> lookup_tx example_builtins net_404 (MockConnector mockchain) ''t'' []
       = (Inr (PyBool True), [])
   \<and> \<not> is_Tx (PyBool True)"
  by (simp add: createTransactionLookupConnector_def)

section \<open>The revoked addresses of a record\<close>

lemma blockchain_info_revoked:
  "blockchain_info_parse_tx py j = Inr t \<Longrightarrow> \<exists>s. revoked_addresses t = Some s"
  by (auto simp: blockchain_info_parse_tx_def and_then_eq_Inr)

lemma blockcypher_revoked:
  "blockcypher_parse_tx py j = Inr t \<Longrightarrow> \<exists>s. revoked_addresses t = Some s"
  by (auto simp: blockcypher_parse_tx_def and_then_eq_Inr)

lemma etherscan_revoked:
  "etherscan_parse_tx py net ts j reqs = (Inr t, reqs') \<Longrightarrow> revoked_addresses t = None"
  by (auto simp: etherscan_parse_tx_def and_then_eq_Inr split: sum.splits prod.splits if_splits)

text \<open>
  C10. Whatever a lookup through the Etherscan connector returns is a record whose
  \<open>revoked_addresses\<close> is \<open>None\<close>; whatever a lookup through one of the two UTXO-style
  connectors returns is a record whose \<open>revoked_addresses\<close> is a set.
\<close>

theorem etherscan_revoked_addresses_none:
  "(lookup_tx py net (EtherscanConnector url timestamp_url) txid reqs = (Inr v, reqs') \<longrightarrow>
      (\<exists>t. v = Tx t \<and> revoked_addresses t = None))
   \<and> (lookup_tx py net (BlockchainInfoConnector url) txid reqs = (Inr v, reqs') \<longrightarrow>
      (\<exists>t s. v = Tx t \<and> revoked_addresses t = Some s))
   \<and> (lookup_tx py net (BlockcypherConnector url) txid reqs = (Inr v, reqs') \<longrightarrow>
      (\<exists>t s. v = Tx t \<and> revoked_addresses t = Some s))"
proof (intro conjI impI)
  assume "lookup_tx py net (EtherscanConnector url timestamp_url) txid reqs = (Inr v, reqs')"
  then have "fetch_then_parse net url (etherscan_parse_tx py net timestamp_url) txid reqs
               = (Inr v, reqs')"
    by simp
  from fetch_then_parse_Inr [OF this]
  obtain j l t where "etherscan_parse_tx py net timestamp_url j l = (Inr t, reqs')" "v = Tx t"
    by blast
  then show "\<exists>t. v = Tx t \<and> revoked_addresses t = None"
    using etherscan_revoked by blast
next
  assume "lookup_tx py net (BlockchainInfoConnector url) txid reqs = (Inr v, reqs')"
  then have "fetch_then_parse net url (\<lambda>j reqs. (blockchain_info_parse_tx py j, reqs)) txid reqs
               = (Inr v, reqs')"
    by simp
  from fetch_then_parse_Inr [OF this]
  obtain j l t where "(blockchain_info_parse_tx py j, l) = (Inr t, reqs')" "v = Tx t"
    by blast
  then show "\<exists>t s. v = Tx t \<and> revoked_addresses t = Some s"
    using blockchain_info_revoked [of py j t] by auto
next
  assume "lookup_tx py net (BlockcypherConnector url) txid reqs = (Inr v, reqs')"
  then have "fetch_then_parse net url (\<lambda>j reqs. (blockcypher_parse_tx py j, reqs)) txid reqs
               = (Inr v, reqs')"
    by simp
  from fetch_then_parse_Inr [OF this]
  obtain j l t where "(blockcypher_parse_tx py j, l) = (Inr t, reqs')" "v = Tx t"
    by blast
  then show "\<exists>t s. v = Tx t \<and> revoked_addresses t = Some s"
    using blockcypher_revoked [of py j t] by auto
qed

text \<open>A successful lookup through each of the three connectors.\<close>

theorem etherscan_revoked_addresses_none_witness:
  "lookup_tx example_builtins net_etherscan
       (EtherscanConnector ''http://e/tx/%s'' ''http://e/block/%s'') ''t'' []
     = (Inr (Tx \<lparr>signing_key = JStr ''0xabc'', script = JStr ''0x1234'',
                   date_time_utc = JInt 1500000000, revoked_addresses = None\<rparr>),
        [''http://e/tx/t'', ''http://e/block/16''])
   \<and> (\<exists>t. Tx \<lparr>signing_key = JStr ''0xabc'', script = JStr ''0x1234'',
               date_time_utc = JInt 1500000000, revoked_addresses = None\<rparr> = Tx t
          \<and> revoked_addresses t = None)
   \<and> lookup_tx example_builtins net_blockchain_info (BlockchainInfoConnector ''http://a/%s'')
       ''t'' []
     = (Inr (Tx \<lparr>signing_key = JStr ''addrA'', script = JStr ''abcd'',
                   date_time_utc = JInt 1500000000,
                   revoked_addresses = Some {JStr ''addrB''}\<rparr>),
        [''http://a/t''])
   \<and> (\<exists>t s. Tx \<lparr>signing_key = JStr ''addrA'', script = JStr ''abcd'',
                 date_time_utc = JInt 1500000000,
                 revoked_addresses = Some {JStr ''addrB''}\<rparr> = Tx t
          \<and> revoked_addresses t = Some s)
   \<and> lookup_tx example_builtins net_blockcypher (BlockcypherConnector ''http://b/%s'')
       ''t'' []
     = (Inr (Tx \<lparr>signing_key = JStr ''addrA'', script = JStr ''abcd'',
                   date_time_utc = JStr ''2017-07-14T02:40:00Z'',
                   revoked_addresses = Some {JStr ''addrB''}\<rparr>),
        [''http://b/t''])
   \<and> (\<exists>t s. Tx \<lparr>signing_key = JStr ''addrA'', script = JStr ''abcd'',
                 date_time_utc = JStr ''2017-07-14T02:40:00Z'',
                 revoked_addresses = Some {JStr ''addrB''}\<rparr> = Tx t
          \<and> revoked_addresses t = Some s)"
proof -
  have h1: "lookup_tx example_builtins net_etherscan
       (EtherscanConnector ''http://e/tx/%s'' ''http://e/block/%s'') ''t'' []
     = (Inr (Tx \<lparr>signing_key = JStr ''0xabc'', script = JStr ''0x1234'',
                   date_time_utc = JInt 1500000000, revoked_addresses = None\<rparr>),
        [''http://e/tx/t'', ''http://e/block/16''])"
    by (simp add: io_defs etherscan_parse_tx_def etherscan_fields_def net_etherscan_def
          example_etherscan_response_def example_builtins_def)
  have h2: "lookup_tx example_builtins net_blockchain_info
       (BlockchainInfoConnector ''http://a/%s'') ''t'' []
     = (Inr (Tx \<lparr>signing_key = JStr ''addrA'', script = JStr ''abcd'',
                   date_time_utc = JInt 1500000000,
                   revoked_addresses = Some {JStr ''addrB''}\<rparr>),
        [''http://a/t''])"
    by (simp add: io_defs parse_defs net_blockchain_info_def)
  have h3: "lookup_tx example_builtins net_blockcypher (BlockcypherConnector ''http://b/%s'')
       ''t'' []
     = (Inr (Tx \<lparr>signing_key = JStr ''addrA'', script = JStr ''abcd'',
                   date_time_utc = JStr ''2017-07-14T02:40:00Z'',
                   revoked_addresses = Some {JStr ''addrB''}\<rparr>),
        [''http://b/t''])"
    by (simp add: io_defs parse_defs net_blockcypher_def)
  note t1 = etherscan_revoked_addresses_none
         [where py = example_builtins and net = net_etherscan and url = "''http://e/tx/%s''"
            and timestamp_url = "''http://e/block/%s''" and txid = "''t''" and reqs = "[]"
            and reqs' = "[''http://e/tx/t'', ''http://e/block/16'']"
            and v = "Tx \<lparr>signing_key = JStr ''0xabc'', script = JStr ''0x1234'',
                          date_time_utc = JInt 1500000000, revoked_addresses = None\<rparr>"]
  note t2 = etherscan_revoked_addresses_none
         [where py = example_builtins and net = net_blockchain_info and url = "''http://a/%s''"
            and txid = "''t''" and reqs = "[]" and reqs' = "[''http://a/t'']"
            and v = "Tx \<lparr>signing_key = JStr ''addrA'', script = JStr ''abcd'',
                          date_time_utc = JInt 1500000000,
                          revoked_addresses = Some {JStr ''addrB''}\<rparr>"]
  note t3 = etherscan_revoked_addresses_none
         [where py = example_builtins and net = net_blockcypher and url = "''http://b/%s''"
            and txid = "''t''" and reqs = "[]" and reqs' = "[''http://b/t'']"
            and v = "Tx \<lparr>signing_key = JStr ''addrA'', script = JStr ''abcd'',
                          date_time_utc = JStr ''2017-07-14T02:40:00Z'',
                          revoked_addresses = Some {JStr ''addrB''}\<rparr>"]
  from t1 h1 have c1: "\<exists>t. Tx \<lparr>signing_key = JStr ''0xabc'', script = JStr ''0x1234'',
               date_time_utc = JInt 1500000000, revoked_addresses = None\<rparr> = Tx t
          \<and> revoked_addresses t = None"
    by blast
  from t2 h2 have c2: "\<exists>t s. Tx \<lparr>signing_key = JStr ''addrA'', script = JStr ''abcd'',
                 date_time_utc = JInt 1500000000,
                 revoked_addresses = Some {JStr ''addrB''}\<rparr> = Tx t
          \<and> revoked_addresses t = Some s"
    by blast
  from t3 h3 have c3: "\<exists>t s. Tx \<lparr>signing_key = JStr ''addrA'', script = JStr ''abcd'',
                 date_time_utc = JStr ''2017-07-14T02:40:00Z'',
                 revoked_addresses = Some {JStr ''addrB''}\<rparr> = Tx t
          \<and> revoked_addresses t = Some s"
    by blast
  from h1 c1 h2 c2 h3 c3 show ?thesis by blast
qed

section \<open>The UTXO-style parsers\<close>


lemma for_each_keeps_fst:
  "\<forall>x\<in>set xs. \<forall>b st'. body x (a, b) = Inr st' \<longrightarrow> fst st' = a \<Longrightarrow>
   for_each body xs (a, b) = Inr st' \<Longrightarrow> fst st' = a"
proof (induction xs arbitrary: b)
  case Nil
  then show ?case by auto
next
  case (Cons x xs)
  from Cons.prems(2) obtain st1 where s1: "body x (a, b) = Inr st1"
    and s2: "for_each body xs st1 = Inr st'"
    by (auto split: sum.splits)
  from Cons.prems(1) s1 have "fst st1 = a" by (cases st1) auto
  then obtain b1 where st1: "st1 = (a, b1)" by (cases st1) simp
  from Cons.prems(1) have "\<forall>x\<in>set xs. \<forall>b st'. body x (a, b) = Inr st' \<longrightarrow> fst st' = a"
    by simp
  from Cons.IH [OF this, of b1] s2 st1 show ?case by simp
qed

lemma for_each_runs:
  "\<forall>x\<in>set xs. \<forall>b. \<exists>b'. body x (a, b) = Inr (a, b') \<Longrightarrow>
   \<exists>b'. for_each body xs (a, b) = Inr (a, b')"
proof (induction xs arbitrary: b)
  case Nil
  then show ?case by simp
next
  case (Cons x xs)
  from Cons.prems have "\<exists>b'. body x (a, b) = Inr (a, b')" by simp
  then obtain b1 where s1: "body x (a, b) = Inr (a, b1)" by blast
  from Cons.prems have "\<forall>x\<in>set xs. \<forall>b. \<exists>b'. body x (a, b) = Inr (a, b')" by simp
  from Cons.IH [OF this, of b1] obtain b2 where "for_each body xs (a, b1) = Inr (a, b2)"
    by auto
  with s1 show ?case by simp
qed

lemma set_add_any: "set_add v s = Inr x \<Longrightarrow> \<exists>y. set_add v s' = Inr y"
  by (cases v) simp_all

lemma blockchain_info_out_not_zero:
  "blockchain_info_zero_value py out \<noteq> Inr True \<Longrightarrow>
   blockchain_info_out py out (a, b) = Inr st' \<Longrightarrow> fst st' = a"
  by (auto simp: blockchain_info_out_def and_then_eq_Inr split: if_splits)

lemma blockcypher_out_not_zero:
  "blockcypher_zero_value py out \<noteq> Inr True \<Longrightarrow>
   blockcypher_out py out (a, b) = Inr st' \<Longrightarrow> fst st' = a"
  by (auto simp: blockcypher_out_def and_then_eq_Inr split: if_splits)

lemma blockchain_info_out_plain:
  assumes "plain_output (blockchain_info_out py) out"
  shows "\<exists>b'. blockchain_info_out py out (a, b) = Inr (a, b')"
proof -
  from assms obtain r where r: "blockchain_info_out py out (None, {}) = Inr (None, r)"
    by (auto simp: plain_output_def split: sum.splits option.splits)
  then have z: "blockchain_info_zero_value py out = Inr False"
    by (auto simp: blockchain_info_out_def and_then_eq_Inr split: if_splits)
  from r z obtain spent where sp: "dict_get out ''spent'' JNull = Inr spent"
    by (auto simp: blockchain_info_out_def and_then_eq_Inr)
  show ?thesis
  proof (cases "truthy spent")
    case False
    with z sp show ?thesis by (simp add: blockchain_info_out_def)
  next
    case True
    with r z sp obtain addr x where ad: "dict_get out ''addr'' JNull = Inr addr"
      and "set_add addr {} = Inr x"
      by (auto simp: blockchain_info_out_def and_then_eq_Inr)
    from set_add_any [OF this(2), of b] obtain y where "set_add addr b = Inr y" by blast
    with z sp True ad show ?thesis by (simp add: blockchain_info_out_def)
  qed
qed

lemma blockcypher_out_plain:
  assumes "plain_output (blockcypher_out py) out"
  shows "\<exists>b'. blockcypher_out py out (a, b) = Inr (a, b')"
proof -
  from assms obtain r where r: "blockcypher_out py out (None, {}) = Inr (None, r)"
    by (auto simp: plain_output_def split: sum.splits option.splits)
  then have z: "blockcypher_zero_value py out = Inr False"
    by (auto simp: blockcypher_out_def and_then_eq_Inr split: if_splits)
  from r z obtain spent where sp: "dict_get out ''spent_by'' JNull = Inr spent"
    by (auto simp: blockcypher_out_def and_then_eq_Inr)
  show ?thesis
  proof (cases "truthy spent")
    case False
    with z sp show ?thesis by (simp add: blockcypher_out_def)
  next
    case True
    with r z sp obtain addrs addr x where ad: "dict_get out ''addresses'' JNull = Inr addrs"
      "getitem0 addrs = Inr addr" and "set_add addr {} = Inr x"
      by (auto simp: blockcypher_out_def and_then_eq_Inr)
    from set_add_any [OF this(3), of b] obtain y where "set_add addr b = Inr y" by blast
    with z sp True ad show ?thesis by (simp add: blockcypher_out_def)
  qed
qed

lemma script_or_raise_None: "script_or_raise None = Inl missing_script"
  by (simp add: script_or_raise_def)

lemma script_or_raise_truthy: "script_or_raise a = Inr s \<Longrightarrow> truthy s"
  by (auto simp: script_or_raise_def split: option.splits if_splits)


lemma blockchain_info_no_zero_raises:
  assumes "no_zero_value_output (blockchain_info_zero_value py) ''out'' j"
  shows "isl (blockchain_info_parse_tx py j)"
proof (rule ccontr)
  assume "\<not> isl (blockchain_info_parse_tx py j)"
  then obtain t where "blockchain_info_parse_tx py j = Inr t"
    by (cases "blockchain_info_parse_tx py j") simp_all
  then obtain outs st s where o: "outputs_of ''out'' j = Inr outs"
    and f: "for_each (blockchain_info_out py) outs (None, {}) = Inr st"
    and s: "script_or_raise (fst st) = Inr s"
    by (auto simp: blockchain_info_parse_tx_def and_then_eq_Inr)
  from assms o have "list_all (\<lambda>out. blockchain_info_zero_value py out \<noteq> Inr True) outs"
    by (simp add: no_zero_value_output_def)
  then have "\<forall>x\<in>set outs. \<forall>b st'. blockchain_info_out py x (None, b) = Inr st' \<longrightarrow> fst st' = None"
    using blockchain_info_out_not_zero by (auto simp: list_all_iff)
  from for_each_keeps_fst [OF this f] have "fst st = None" by simp
  with s show False by (simp add: script_or_raise_None)
qed


lemma blockchain_info_plain_only:
  assumes h: "blockchain_info_header j = Inr (time, key)"
      and o: "outputs_of ''out'' j = Inr outs"
      and p: "list_all (plain_output (blockchain_info_out py)) outs"
  shows "blockchain_info_parse_tx py j = Inl missing_script"
proof -
  from p have p1: "\<forall>x\<in>set outs. \<forall>b. \<exists>b'. blockchain_info_out py x (None, b) = Inr (None, b')"
    using blockchain_info_out_plain by (auto simp: list_all_iff)
  from for_each_runs [OF p1, of "{}"]
  obtain b1 where f1: "for_each (blockchain_info_out py) outs (None, {}) = Inr (None, b1)"
    by blast
  with h o show ?thesis
    by (simp add: blockchain_info_parse_tx_def script_or_raise_None)
qed

lemma blockcypher_no_zero_raises:
  assumes "no_zero_value_output (blockcypher_zero_value py) ''outputs'' j"
  shows "isl (blockcypher_parse_tx py j)"
proof (rule ccontr)
  assume "\<not> isl (blockcypher_parse_tx py j)"
  then obtain t where "blockcypher_parse_tx py j = Inr t"
    by (cases "blockcypher_parse_tx py j") simp_all
  then obtain outs st s where o: "outputs_of ''outputs'' j = Inr outs"
    and f: "for_each (blockcypher_out py) outs (None, {}) = Inr st"
    and s: "script_or_raise (fst st) = Inr s"
    by (auto simp: blockcypher_parse_tx_def and_then_eq_Inr)
  from assms o have "list_all (\<lambda>out. blockcypher_zero_value py out \<noteq> Inr True) outs"
    by (simp add: no_zero_value_output_def)
  then have "\<forall>x\<in>set outs. \<forall>b st'. blockcypher_out py x (None, b) = Inr st' \<longrightarrow> fst st' = None"
    using blockcypher_out_not_zero by (auto simp: list_all_iff)
  from for_each_keeps_fst [OF this f] have "fst st = None" by simp
  with s show False by (simp add: script_or_raise_None)
qed


lemma blockcypher_plain_only:
  assumes h: "blockcypher_header j = Inr (time, key)"
      and o: "outputs_of ''outputs'' j = Inr outs"
      and p: "list_all (plain_output (blockcypher_out py)) outs"
  shows "blockcypher_parse_tx py j = Inl missing_script"
proof -
  from p have p1: "\<forall>x\<in>set outs. \<forall>b. \<exists>b'. blockcypher_out py x (None, b) = Inr (None, b')"
    using blockcypher_out_plain by (auto simp: list_all_iff)
  from for_each_runs [OF p1, of "{}"]
  obtain b1 where f1: "for_each (blockcypher_out py) outs (None, {}) = Inr (None, b1)"
    by blast
  with h o show ?thesis
    by (simp add: blockcypher_parse_tx_def script_or_raise_None)
qed




lemma towards_zero_at_least_one: "1 \<le> \<bar>q\<bar> \<Longrightarrow> towards_zero q \<noteq> 0"
proof (cases "0 \<le> q")
  case True
  assume "1 \<le> \<bar>q\<bar>"
  with True have "1 \<le> q" by simp
  then have "1 \<le> \<lfloor>q\<rfloor>" by (simp add: le_floor_iff)
  then have "\<lfloor>q\<rfloor> \<noteq> 0" by linarith
  with True show ?thesis by (simp add: towards_zero_def)
next
  case False
  assume "1 \<le> \<bar>q\<bar>"
  with False have "q \<le> -1" by simp
  then have "\<lceil>q\<rceil> \<le> -1" by (simp add: ceiling_le_iff)
  then have "\<lceil>q\<rceil> \<noteq> 0" by linarith
  with False show ?thesis by (simp add: towards_zero_def)
qed

lemma towards_zero_half: "towards_zero (1 / 2) = 0"
  by (simp add: towards_zero_def floor_eq_iff)

lemma getitem_field_of: "field_of k j = Some v \<Longrightarrow> getitem j k = Inr v"
  by (cases j) (simp_all add: field_of_def)

text \<open>The notions on the JSON of an output give what the tests of the loop find.\<close>

lemma value_at_least_one_not_zero:
  "value_at_least_one out \<Longrightarrow> blockchain_info_zero_value py out \<noteq> Inr True"
  by (cases out)
     (auto simp: blockchain_info_zero_value_def value_at_least_one_def field_of_def
        and_then_eq_Inr towards_zero_at_least_one
        split: option.splits json.splits pyfloat.splits if_splits)

lemma value_not_zero_not_zero:
  "value_not_zero out \<Longrightarrow> blockcypher_zero_value py out \<noteq> Inr True"
  by (cases out)
     (auto simp: blockcypher_zero_value_def value_not_zero_def field_of_def
        split: option.splits json.splits pyfloat.splits if_splits)

lemma blockchain_info_other_plain:
  "blockchain_info_other out \<Longrightarrow> plain_output (blockchain_info_out py) out"
  by (cases out)
     (auto simp: blockchain_info_other_def plain_output_def blockchain_info_out_def
        blockchain_info_zero_value_def towards_zero_at_least_one
        split: option.splits json.splits pyfloat.splits if_splits)

lemma blockcypher_other_plain:
  "blockcypher_other out \<Longrightarrow> plain_output (blockcypher_out py) out"
  by (cases out)
     (auto simp: blockcypher_other_def plain_output_def blockcypher_out_def
        blockcypher_zero_value_def
        split: option.splits json.splits pyfloat.splits if_splits list.splits)



lemma first_input:
  assumes "(case field_of ''inputs'' j of
              Some (JList (input # inputs)) \<Rightarrow> Q input
            | _ \<Rightarrow> False)"
  shows "\<exists>input inputs. field_of ''inputs'' j = Some (JList (input # inputs)) \<and> Q input"
proof (cases "field_of ''inputs'' j")
  case None
  with assms show ?thesis by simp
next
  case (Some v)
  with assms show ?thesis
    by (cases v) (auto split: list.splits)
qed

lemma blockchain_info_shape_read:
  assumes "blockchain_info_shape j time key outs"
  shows "blockchain_info_header j = Inr (time, key) \<and> outputs_of ''out'' j = Inr outs"
proof -
  from assms have t: "field_of ''time'' j = Some time"
    and o: "field_of ''out'' j = Some (JList outs)"
    by (simp_all add: blockchain_info_shape_def)
  from assms first_input [where j = j and Q = "\<lambda>input. case field_of ''prev_out'' input of
                 Some prev_out \<Rightarrow> field_of ''addr'' prev_out = Some key
               | None \<Rightarrow> False"]
  obtain input inputs where i: "field_of ''inputs'' j = Some (JList (input # inputs))"
    and p: "case field_of ''prev_out'' input of
                 Some prev_out \<Rightarrow> field_of ''addr'' prev_out = Some key
               | None \<Rightarrow> False"
    by (auto simp: blockchain_info_shape_def)
  from p obtain prev_out where p1: "field_of ''prev_out'' input = Some prev_out"
    and p2: "field_of ''addr'' prev_out = Some key"
    by (cases "field_of ''prev_out'' input") auto
  from t i p1 p2 o show ?thesis
    by (simp add: blockchain_info_header_def outputs_of_def getitem_field_of)
qed

lemma blockcypher_shape_read:
  assumes "blockcypher_shape j time key outs"
  shows "blockcypher_header j = Inr (time, key) \<and> outputs_of ''outputs'' j = Inr outs"
proof -
  from assms have t: "field_of ''received'' j = Some time"
    and o: "field_of ''outputs'' j = Some (JList outs)"
    by (simp_all add: blockcypher_shape_def)
  from assms first_input [where j = j and Q = "\<lambda>input. case field_of ''addresses'' input of
                 Some (JList (k # addrs)) \<Rightarrow> k = key
               | _ \<Rightarrow> False"]
  obtain input inputs where i: "field_of ''inputs'' j = Some (JList (input # inputs))"
    and p: "case field_of ''addresses'' input of
                 Some (JList (k # addrs)) \<Rightarrow> k = key
               | _ \<Rightarrow> False"
    by (auto simp: blockcypher_shape_def)
  from p obtain v where v: "field_of ''addresses'' input = Some v"
    by (cases "field_of ''addresses'' input") auto
  with p obtain addrs where a: "v = JList (key # addrs)"
    by (cases v) (auto split: list.splits)
  from t i v a o show ?thesis
    by (simp add: blockcypher_header_def outputs_of_def getitem_field_of)
qed

text \<open>
  Where the value under the key of the outputs is no list, the loop visits strings (the
  keys of a dict, the characters of a string) or raises; on a string the test raises.
\<close>

lemma no_zero_value_output_structural:
  assumes "\<And>out. P out \<Longrightarrow> zero_value out \<noteq> Inr True"
      and "\<And>s. zero_value (JStr s) \<noteq> Inr True"
      and "list_all P (response_outputs field j)"
  shows "no_zero_value_output zero_value field j"
proof (cases "outputs_of field j")
  case (Inl e)
  then show ?thesis by (simp add: no_zero_value_output_def)
next
  case (Inr outs)
  then obtain v where v: "getitem j field = Inr v" and it: "iter v = Inr outs"
    by (auto simp: outputs_of_def and_then_eq_Inr)
  from v obtain kvs where j: "j = JObj kvs" and m: "map_of kvs field = Some v"
    by (cases j) (auto split: option.splits)
  have "list_all (\<lambda>out. zero_value out \<noteq> Inr True) outs"
  proof (cases v)
    case (JList xs)
    with it j m assms(3) have "list_all P outs"
      by (simp add: response_outputs_def field_of_def)
    with assms(1) show ?thesis by (auto simp: list_all_iff)
  next
    case (JObj kvs')
    with it assms(2) show ?thesis by (auto simp: list_all_iff)
  next
    case (JStr s)
    with it assms(2) show ?thesis by (auto simp: list_all_iff)
  qed (use it in simp_all)
  with Inr show ?thesis by (simp add: no_zero_value_output_def)
qed

lemma blockchain_info_zero_value_JStr: "blockchain_info_zero_value py (JStr s) \<noteq> Inr True"
  by (simp add: blockchain_info_zero_value_def)

lemma blockcypher_zero_value_JStr: "blockcypher_zero_value py (JStr s) \<noteq> Inr True"
  by (simp add: blockcypher_zero_value_def)

lemma list_all_plain:
  "list_all P outs \<Longrightarrow> (\<And>out. P out \<Longrightarrow> Q out) \<Longrightarrow> list_all Q outs"
  by (auto simp: list_all_iff)

lemmas example_defs =
  blockchain_info_no_data_def blockcypher_no_data_def blockchain_info_empty_payload_def
  blockcypher_empty_payload_def blockchain_info_fraction_def blockchain_info_two_payloads_def
  field_of_def zero_value_output_def response_outputs_def value_not_zero_def
  value_at_least_one_def blockchain_info_other_def blockcypher_other_def
  blockchain_info_shape_def blockcypher_shape_def towards_zero_half

text \<open>
  C4, as amended. A UTXO-style \<open>parse_tx\<close> returns no record, it raises, for a response
  none of whose outputs has the value zero: for blockcypher with every \<open>value\<close> absent or
  a number other than zero, for blockchain.info with every \<open>value\<close> absent or a number of
  magnitude at least one. Where the response has the shape of the provider and the shape
  of each output is the one of an output that is not of zero value, what it raises is an
  \<open>InvalidTransactionError\<close>. So every record that one of the two UTXO-style connectors
  returns has a non-empty \<open>script\<close>.
\<close>

theorem utxo_no_zero_value_output:
  "(list_all value_at_least_one (response_outputs ''out'' j) \<longrightarrow>
      isl (blockchain_info_parse_tx py j))
   \<and> (list_all value_not_zero (response_outputs ''outputs'' j) \<longrightarrow>
      isl (blockcypher_parse_tx py j))
   \<and> (blockchain_info_shape j time key outs \<and> list_all blockchain_info_other outs \<longrightarrow>
      (\<exists>a. blockchain_info_parse_tx py j = Inl (InvalidTransactionError a)))
   \<and> (blockcypher_shape j time key outs \<and> list_all blockcypher_other outs \<longrightarrow>
      (\<exists>a. blockcypher_parse_tx py j = Inl (InvalidTransactionError a)))
   \<and> (blockchain_info_parse_tx py j = Inr t \<longrightarrow> truthy (script t))
   \<and> (blockcypher_parse_tx py j = Inr t \<longrightarrow> truthy (script t))"
proof (intro conjI impI)
  assume "list_all value_at_least_one (response_outputs ''out'' j)"
  then have "no_zero_value_output (blockchain_info_zero_value py) ''out'' j"
    by (intro no_zero_value_output_structural [where P = value_at_least_one]
          value_at_least_one_not_zero blockchain_info_zero_value_JStr)
  then show "isl (blockchain_info_parse_tx py j)"
    by (rule blockchain_info_no_zero_raises)
next
  assume "list_all value_not_zero (response_outputs ''outputs'' j)"
  then have "no_zero_value_output (blockcypher_zero_value py) ''outputs'' j"
    by (intro no_zero_value_output_structural [where P = value_not_zero]
          value_not_zero_not_zero blockcypher_zero_value_JStr)
  then show "isl (blockcypher_parse_tx py j)"
    by (rule blockcypher_no_zero_raises)
next
  assume a: "blockchain_info_shape j time key outs \<and> list_all blockchain_info_other outs"
  then have "list_all (plain_output (blockchain_info_out py)) outs"
    by (auto intro: list_all_plain blockchain_info_other_plain)
  with a blockchain_info_shape_read [of j time key outs]
  have "blockchain_info_parse_tx py j = Inl missing_script"
    by (auto intro: blockchain_info_plain_only)
  then show "\<exists>a. blockchain_info_parse_tx py j = Inl (InvalidTransactionError a)"
    by (simp add: missing_script_def)
next
  assume a: "blockcypher_shape j time key outs \<and> list_all blockcypher_other outs"
  then have "list_all (plain_output (blockcypher_out py)) outs"
    by (auto intro: list_all_plain blockcypher_other_plain)
  with a blockcypher_shape_read [of j time key outs]
  have "blockcypher_parse_tx py j = Inl missing_script"
    by (auto intro: blockcypher_plain_only)
  then show "\<exists>a. blockcypher_parse_tx py j = Inl (InvalidTransactionError a)"
    by (simp add: missing_script_def)
next
  assume "blockchain_info_parse_tx py j = Inr t"
  then show "truthy (script t)"
    by (auto simp: blockchain_info_parse_tx_def and_then_eq_Inr dest: script_or_raise_truthy)
next
  assume "blockcypher_parse_tx py j = Inr t"
  then show "truthy (script t)"
    by (auto simp: blockcypher_parse_tx_def and_then_eq_Inr dest: script_or_raise_truthy)
qed

text \<open>
  A response of each provider with one output, of value 5, and the two examples with
  an output of zero value.
\<close>

theorem utxo_no_zero_value_output_witness:
  "list_all value_at_least_one (response_outputs ''out'' (blockchain_info_no_data 5))
   \<and> isl (blockchain_info_parse_tx example_builtins (blockchain_info_no_data 5))
   \<and> list_all value_not_zero (response_outputs ''outputs'' (blockcypher_no_data 5))
   \<and> isl (blockcypher_parse_tx example_builtins (blockcypher_no_data 5))
   \<and> blockchain_info_shape (blockchain_info_no_data 5) (JInt 1500000000) (JStr ''addrA'')
       [JObj [(''value'', JInt 5), (''addr'', JStr ''addrB'')]]
   \<and> list_all blockchain_info_other [JObj [(''value'', JInt 5), (''addr'', JStr ''addrB'')]]
   \<and> (\<exists>a. blockchain_info_parse_tx example_builtins (blockchain_info_no_data 5)
             = Inl (InvalidTransactionError a))
   \<and> blockcypher_shape (blockcypher_no_data 5) (JStr ''2017-07-14T02:40:00Z'') (JStr ''addrA'')
       [JObj [(''value'', JInt 5), (''addresses'', JList [JStr ''addrB''])]]
   \<and> list_all blockcypher_other
       [JObj [(''value'', JInt 5), (''addresses'', JList [JStr ''addrB''])]]
   \<and> (\<exists>a. blockcypher_parse_tx example_builtins (blockcypher_no_data 5)
             = Inl (InvalidTransactionError a))
   \<and> blockchain_info_parse_tx example_builtins example_blockchain_info_response
       = Inr \<lparr>signing_key = JStr ''addrA'', script = JStr ''abcd'',
              date_time_utc = JInt 1500000000, revoked_addresses = Some {JStr ''addrB''}\<rparr>
   \<and> truthy (script \<lparr>signing_key = JStr ''addrA'', script = JStr ''abcd'',
              date_time_utc = JInt 1500000000, revoked_addresses = Some {JStr ''addrB''}\<rparr>)
   \<and> blockcypher_parse_tx example_builtins example_blockcypher_response
       = Inr \<lparr>signing_key = JStr ''addrA'', script = JStr ''abcd'',
              date_time_utc = JStr ''2017-07-14T02:40:00Z'',
              revoked_addresses = Some {JStr ''addrB''}\<rparr>
   \<and> truthy (script \<lparr>signing_key = JStr ''addrA'', script = JStr ''abcd'',
              date_time_utc = JStr ''2017-07-14T02:40:00Z'',
              revoked_addresses = Some {JStr ''addrB''}\<rparr>)"
proof -
  have a1: "list_all value_at_least_one (response_outputs ''out'' (blockchain_info_no_data 5))"
    by (simp add: example_defs)
  have a2: "list_all value_not_zero (response_outputs ''outputs'' (blockcypher_no_data 5))"
    by (simp add: example_defs)
  have b1: "blockchain_info_shape (blockchain_info_no_data 5) (JInt 1500000000) (JStr ''addrA'')
       [JObj [(''value'', JInt 5), (''addr'', JStr ''addrB'')]]"
    by (simp add: example_defs)
  have b2: "list_all blockchain_info_other [JObj [(''value'', JInt 5), (''addr'', JStr ''addrB'')]]"
    by (simp add: example_defs)
  have c1: "blockcypher_shape (blockcypher_no_data 5) (JStr ''2017-07-14T02:40:00Z'')
       (JStr ''addrA'') [JObj [(''value'', JInt 5), (''addresses'', JList [JStr ''addrB''])]]"
    by (simp add: example_defs)
  have c2: "list_all blockcypher_other
       [JObj [(''value'', JInt 5), (''addresses'', JList [JStr ''addrB''])]]"
    by (simp add: example_defs)
  have d1: "blockchain_info_parse_tx example_builtins example_blockchain_info_response
       = Inr \<lparr>signing_key = JStr ''addrA'', script = JStr ''abcd'',
              date_time_utc = JInt 1500000000, revoked_addresses = Some {JStr ''addrB''}\<rparr>"
    by (simp add: parse_defs)
  have d2: "blockcypher_parse_tx example_builtins example_blockcypher_response
       = Inr \<lparr>signing_key = JStr ''addrA'', script = JStr ''abcd'',
              date_time_utc = JStr ''2017-07-14T02:40:00Z'',
              revoked_addresses = Some {JStr ''addrB''}\<rparr>"
    by (simp add: parse_defs)
  note t1 = utxo_no_zero_value_output
    [where py = example_builtins and j = "blockchain_info_no_data 5"
       and time = "JInt 1500000000" and key = "JStr ''addrA''"
       and outs = "[JObj [(''value'', JInt 5), (''addr'', JStr ''addrB'')]]"]
  note t2 = utxo_no_zero_value_output
    [where py = example_builtins and j = "blockcypher_no_data 5"
       and time = "JStr ''2017-07-14T02:40:00Z''" and key = "JStr ''addrA''"
       and outs = "[JObj [(''value'', JInt 5), (''addresses'', JList [JStr ''addrB''])]]"]
  note t3 = utxo_no_zero_value_output
    [where py = example_builtins and j = example_blockchain_info_response
       and t = "\<lparr>signing_key = JStr ''addrA'', script = JStr ''abcd'',
              date_time_utc = JInt 1500000000, revoked_addresses = Some {JStr ''addrB''}\<rparr>"]
  note t4 = utxo_no_zero_value_output
    [where py = example_builtins and j = example_blockcypher_response
       and t = "\<lparr>signing_key = JStr ''addrA'', script = JStr ''abcd'',
              date_time_utc = JStr ''2017-07-14T02:40:00Z'',
              revoked_addresses = Some {JStr ''addrB''}\<rparr>"]
  from t1 a1 b1 b2
  have e1: "isl (blockchain_info_parse_tx example_builtins (blockchain_info_no_data 5))"
    and e2: "\<exists>a. blockchain_info_parse_tx example_builtins (blockchain_info_no_data 5)
             = Inl (InvalidTransactionError a)"
    by blast+
  from t2 a2 c1 c2
  have f1: "isl (blockcypher_parse_tx example_builtins (blockcypher_no_data 5))"
    and f2: "\<exists>a. blockcypher_parse_tx example_builtins (blockcypher_no_data 5)
             = Inl (InvalidTransactionError a)"
    by blast+
  from t3 d1
  have g1: "truthy (script \<lparr>signing_key = JStr ''addrA'', script = JStr ''abcd'',
              date_time_utc = JInt 1500000000, revoked_addresses = Some {JStr ''addrB''}\<rparr>)"
    by blast
  from t4 d2
  have g2: "truthy (script \<lparr>signing_key = JStr ''addrA'', script = JStr ''abcd'',
              date_time_utc = JStr ''2017-07-14T02:40:00Z'',
              revoked_addresses = Some {JStr ''addrB''}\<rparr>)"
    by blast
  from a1 e1 a2 f1 b1 b2 e2 c1 c2 f2 d1 g1 d2 g2 show ?thesis
    by (intro conjI)
qed

text \<open>
  C4 as stated fails. A response of blockchain.info whose only output has the value
  0.5 has no output of zero value, and \<open>parse_tx\<close> returns a record for it:
  \<open>int(0.5)\<close> is 0. And two responses with no output of zero value, that differ, make
  \<open>parse_tx\<close> raise the same exception, an \<open>InvalidTransactionError\<close> with the fixed
  message; the exception does not carry the response.
\<close>

theorem utxo_no_zero_value_output_refuted:
  "response_outputs ''out'' blockchain_info_fraction
       = [JObj [(''value'', JFloat (Finite (1 / 2))), (''script'', JStr ''6a20abcd'')]]
   \<and> \<not> zero_value_output
          (JObj [(''value'', JFloat (Finite (1 / 2))), (''script'', JStr ''6a20abcd'')])
   \<and> blockchain_info_parse_tx example_builtins blockchain_info_fraction
       = Inr \<lparr>signing_key = JStr ''addrA'', script = JStr ''abcd'',
              date_time_utc = JInt 1500000000, revoked_addresses = Some {}\<rparr>
   \<and> blockchain_info_no_data 5 \<noteq> blockchain_info_no_data 7
   \<and> blockchain_info_parse_tx example_builtins (blockchain_info_no_data 5)
       = Inl (InvalidTransactionError (Msg ''transaction response is missing op_return script''))
   \<and> blockchain_info_parse_tx example_builtins (blockchain_info_no_data 7)
       = Inl (InvalidTransactionError (Msg ''transaction response is missing op_return script''))
   \<and> blockcypher_no_data 5 \<noteq> blockcypher_no_data 7
   \<and> blockcypher_parse_tx example_builtins (blockcypher_no_data 5)
       = Inl (InvalidTransactionError (Msg ''transaction response is missing op_return script''))
   \<and> blockcypher_parse_tx example_builtins (blockcypher_no_data 7)
       = Inl (InvalidTransactionError (Msg ''transaction response is missing op_return script''))"
  by (simp add: example_defs parse_defs)




section \<open>Issuer information\<close>

lemma get_issuer_info_fetched:
  assumes "net (length reqs) (issuer_id cm) = Response 200 (Some j)" and "truthy j"
  shows "get_issuer_info P net cm reqs =
           (case collect_revoked_assertions net cm (reqs @ [issuer_id cm]) of
              (Inl e, reqs2) \<Rightarrow> (Inl e, reqs2)
            | (Inr revoked_list, reqs2) \<Rightarrow> (issuer_info_of P j revoked_list, reqs2))"
  using assms
  by (simp add: get_issuer_info_def get_remote_json_def requests_get_def r_json_def)

lemma issuer_key_entries_length:
  "for_each (issuer_key_entry P field) entries keys = Inr keys' \<Longrightarrow>
   length keys' = length keys + length entries"
proof (induction entries arbitrary: keys)
  case Nil
  then show ?case by auto
next
  case (Cons x xs)
  from Cons.prems obtain k1 where s1: "issuer_key_entry P field x keys = Inr k1"
    and s2: "for_each (issuer_key_entry P field) xs k1 = Inr keys'"
    by (auto split: sum.splits)
  from s1 have "length k1 = Suc (length keys)"
    by (auto simp: issuer_key_entry_def and_then_eq_Inr)
  with Cons.IH [OF s2] show ?case by simp
qed

lemma issuer_info_of_legacy:
  assumes "contains ''@context'' j = Inr False" and "issuer_info_of P j revs = Inr info"
  shows "\<exists>k. issuer_keys info = [k]"
  using assms
  by (auto simp: issuer_info_of_def and_then_eq_Inr split: if_splits)

lemma issuer_info_of_no_keys:
  assumes "contains ''@context'' j = Inr True" and "contains ''publicKey'' j = Inr False"
      and "contains ''publicKeys'' j = Inr False"
  shows "issuer_info_of P j revs =
           Inr \<lparr>issuer_keys = [], revocation_keys = None, revoked_assertions = Some revs\<rparr>"
  using assms by (simp add: issuer_info_of_def)

lemma issuer_info_of_publicKey:
  assumes "contains ''@context'' j = Inr True" and "contains ''publicKey'' j = Inr True"
      and "outputs_of ''publicKey'' j = Inr entries"
      and "issuer_info_of P j revs = Inr info"
  shows "length (issuer_keys info) = length entries \<and> revoked_assertions info = Some revs"
  using assms issuer_key_entries_length [of P "''id''" entries "[]"]
  by (auto simp: issuer_info_of_def outputs_of_def and_then_eq_Inr)

lemma issuer_info_of_publicKeys:
  assumes "contains ''@context'' j = Inr True" and "contains ''publicKey'' j = Inr False"
      and "contains ''publicKeys'' j = Inr True"
      and "outputs_of ''publicKeys'' j = Inr entries"
      and "issuer_info_of P j revs = Inr info"
  shows "length (issuer_keys info) = length entries \<and> revoked_assertions info = Some revs"
  using assms issuer_key_entries_length [of P "''publicKey''" entries "[]"]
  by (auto simp: issuer_info_of_def outputs_of_def and_then_eq_Inr)

lemma collect_non_success:
  assumes "version cm = V2 \<or> version cm = V2_ALPHA"
      and "getitem (certificate_json cm) ''badge'' = Inr badge"
      and "getitem badge ''issuer'' = Inr issuer"
      and "contains ''revocationList'' issuer = Inr True"
      and "getitem issuer ''revocationList'' = Inr (JStr u)"
      and "net (length reqs) u = Response status_code body"
      and "status_code \<noteq> 200"
  shows "collect_revoked_assertions net cm reqs = (Inr [], reqs @ [u])"
  using assms
  by (auto simp: collect_revoked_assertions_def get_remote_json_def requests_get_def
        revoked_ids_def)

lemmas issuer_defs =
  get_issuer_info_def get_remote_json_def requests_get_def r_json_def
  collect_revoked_assertions_def revoked_ids_def issuer_info_of_def issuer_key_entry_def
  get_field_or_default_def first_key_def key_only_def outputs_of_def
  example_certificate_def example_profile_def example_profile_v1_def
  example_profile_no_keys_def example_profile_alpha_def example_profile_v1_keys_only_def
  example_revocation_list_def net_issuer_def

text \<open>
  C6, as amended. With the profile fetched and the revoked assertions collected,
  \<open>get_issuer_info\<close> returns an issuer information with an empty list of keys for a
  profile with the \<open>@context\<close> marker and neither \<open>publicKey\<close> nor \<open>publicKeys\<close>; for
  a profile with the marker and one of the two collections, whatever it returns has one
  key for each entry of the collection, none when the collection is empty; for a
  profile without the marker, whatever it returns has exactly one key.
\<close>

theorem issuer_keys_count:
  assumes "net (length reqs) (issuer_id cm) = Response 200 (Some j)"
      and "truthy j"
      and "collect_revoked_assertions net cm (reqs @ [issuer_id cm]) = (Inr revs, reqs')"
  shows "(contains ''@context'' j = Inr True \<and> contains ''publicKey'' j = Inr False
            \<and> contains ''publicKeys'' j = Inr False \<longrightarrow>
           get_issuer_info P net cm reqs =
             (Inr \<lparr>issuer_keys = [], revocation_keys = None, revoked_assertions = Some revs\<rparr>,
              reqs'))
         \<and> (contains ''@context'' j = Inr True \<and> contains ''publicKey'' j = Inr True
              \<and> outputs_of ''publicKey'' j = Inr entries
              \<and> get_issuer_info P net cm reqs = (Inr info, reqs') \<longrightarrow>
           length (issuer_keys info) = length entries)
         \<and> (contains ''@context'' j = Inr True \<and> contains ''publicKey'' j = Inr False
              \<and> contains ''publicKeys'' j = Inr True
              \<and> outputs_of ''publicKeys'' j = Inr entries
              \<and> get_issuer_info P net cm reqs = (Inr info, reqs') \<longrightarrow>
           length (issuer_keys info) = length entries)
         \<and> (contains ''@context'' j = Inr False
              \<and> get_issuer_info P net cm reqs = (Inr info, reqs') \<longrightarrow>
           length (issuer_keys info) = 1)"
proof -
  have g: "get_issuer_info P net cm reqs = (issuer_info_of P j revs, reqs')"
    using assms by (simp add: get_issuer_info_fetched)
  show ?thesis
    unfolding g
    using issuer_info_of_no_keys [of j P revs] issuer_info_of_publicKey [of j entries P revs info]
      issuer_info_of_publicKeys [of j entries P revs info] issuer_info_of_legacy [of j P revs info]
    by auto
qed

text \<open>
  A certificate of version 1.2 (no revocation list is fetched) with each of four
  profiles: the marker only, the current format, the v2-alpha format, the legacy format.
\<close>

theorem issuer_keys_count_witness:
  "get_issuer_info ''ecdsa-koblitz-pubkey:'' (net_issuer example_profile_no_keys NoResponse)
       (example_certificate V1_2) []
     = (Inr \<lparr>issuer_keys = [], revocation_keys = None, revoked_assertions = Some []\<rparr>,
        [''http://i/profile''])
   \<and> get_issuer_info ''ecdsa-koblitz-pubkey:'' (net_issuer example_profile NoResponse)
       (example_certificate V1_2) []
     = (Inr \<lparr>issuer_keys =
               [\<lparr>public_key = JStr ''1ABC'', created = Some (JStr ''2017-06-29''),
                  expires = Some JNull, revoked = Some JNull\<rparr>],
             revocation_keys = None, revoked_assertions = Some []\<rparr>,
        [''http://i/profile''])
   \<and> length [\<lparr>public_key = JStr ''1ABC'', created = Some (JStr ''2017-06-29''),
                expires = Some JNull, revoked = Some JNull\<rparr>]
       = length [JObj [(''id'', JStr ''ecdsa-koblitz-pubkey:1ABC''),
                       (''created'', JStr ''2017-06-29'')]]
   \<and> get_issuer_info ''ecdsa-koblitz-pubkey:'' (net_issuer example_profile_alpha NoResponse)
       (example_certificate V1_2) []
     = (Inr \<lparr>issuer_keys =
               [\<lparr>public_key = JStr ''1ABC'', created = Some JNull,
                  expires = Some JNull, revoked = Some JNull\<rparr>],
             revocation_keys = None, revoked_assertions = Some []\<rparr>,
        [''http://i/profile''])
   \<and> length [\<lparr>public_key = JStr ''1ABC'', created = Some JNull,
                expires = Some JNull, revoked = Some JNull\<rparr>]
       = length [JObj [(''publicKey'', JStr ''ecdsa-koblitz-pubkey:1ABC'')]]
   \<and> get_issuer_info ''ecdsa-koblitz-pubkey:'' (net_issuer example_profile_v1 NoResponse)
       (example_certificate V1_2) []
     = (Inr \<lparr>issuer_keys = [key_only (JStr ''1ABC'')],
             revocation_keys = Some [key_only (JStr ''1REV'')],
             revoked_assertions = None\<rparr>,
        [''http://i/profile''])
   \<and> length [key_only (JStr ''1ABC'')] = 1"
proof -
  have c: "\<And>p. collect_revoked_assertions (net_issuer p NoResponse) (example_certificate V1_2)
             ([] @ [issuer_id (example_certificate V1_2)]) = (Inr [], [''http://i/profile''])"
    by (simp add: issuer_defs)
  have n: "\<And>p. net_issuer p NoResponse (length ([] :: string list))
             (issuer_id (example_certificate V1_2)) = Response 200 (Some p)"
    by (simp add: issuer_defs)
  have t1: "truthy example_profile_no_keys" and t2: "truthy example_profile"
    and t3: "truthy example_profile_alpha" and t4: "truthy example_profile_v1"
    by (simp_all add: issuer_defs)
  have a1: "contains ''@context'' example_profile_no_keys = Inr True
            \<and> contains ''publicKey'' example_profile_no_keys = Inr False
            \<and> contains ''publicKeys'' example_profile_no_keys = Inr False"
    by (simp add: issuer_defs)
  have a2: "contains ''@context'' example_profile = Inr True
            \<and> contains ''publicKey'' example_profile = Inr True
            \<and> outputs_of ''publicKey'' example_profile
                = Inr [JObj [(''id'', JStr ''ecdsa-koblitz-pubkey:1ABC''),
                             (''created'', JStr ''2017-06-29'')]]"
    by (simp add: issuer_defs)
  have a3: "contains ''@context'' example_profile_alpha = Inr True
            \<and> contains ''publicKey'' example_profile_alpha = Inr False
            \<and> contains ''publicKeys'' example_profile_alpha = Inr True
            \<and> outputs_of ''publicKeys'' example_profile_alpha
                = Inr [JObj [(''publicKey'', JStr ''ecdsa-koblitz-pubkey:1ABC'')]]"
    by (simp add: issuer_defs)
  have a4: "contains ''@context'' example_profile_v1 = Inr False"
    by (simp add: issuer_defs)
  have g2: "get_issuer_info ''ecdsa-koblitz-pubkey:'' (net_issuer example_profile NoResponse)
       (example_certificate V1_2) []
     = (Inr \<lparr>issuer_keys =
               [\<lparr>public_key = JStr ''1ABC'', created = Some (JStr ''2017-06-29''),
                  expires = Some JNull, revoked = Some JNull\<rparr>],
             revocation_keys = None, revoked_assertions = Some []\<rparr>,
        [''http://i/profile''])"
    by (simp add: issuer_defs)
  have g3: "get_issuer_info ''ecdsa-koblitz-pubkey:'' (net_issuer example_profile_alpha NoResponse)
       (example_certificate V1_2) []
     = (Inr \<lparr>issuer_keys =
               [\<lparr>public_key = JStr ''1ABC'', created = Some JNull,
                  expires = Some JNull, revoked = Some JNull\<rparr>],
             revocation_keys = None, revoked_assertions = Some []\<rparr>,
        [''http://i/profile''])"
    by (simp add: issuer_defs)
  have g4: "get_issuer_info ''ecdsa-koblitz-pubkey:'' (net_issuer example_profile_v1 NoResponse)
       (example_certificate V1_2) []
     = (Inr \<lparr>issuer_keys = [key_only (JStr ''1ABC'')],
             revocation_keys = Some [key_only (JStr ''1REV'')],
             revoked_assertions = None\<rparr>,
        [''http://i/profile''])"
    by (simp add: issuer_defs)
  note r1 = issuer_keys_count
    [where net = "net_issuer example_profile_no_keys NoResponse" and reqs = "[]"
       and cm = "example_certificate V1_2" and j = example_profile_no_keys
       and P = "''ecdsa-koblitz-pubkey:''", OF n t1 c]
  note r2 = issuer_keys_count
    [where net = "net_issuer example_profile NoResponse" and reqs = "[]"
       and cm = "example_certificate V1_2" and j = example_profile
       and P = "''ecdsa-koblitz-pubkey:''"
       and entries = "[JObj [(''id'', JStr ''ecdsa-koblitz-pubkey:1ABC''),
                             (''created'', JStr ''2017-06-29'')]]"
       and info = "\<lparr>issuer_keys =
               [\<lparr>public_key = JStr ''1ABC'', created = Some (JStr ''2017-06-29''),
                  expires = Some JNull, revoked = Some JNull\<rparr>],
             revocation_keys = None, revoked_assertions = Some []\<rparr>", OF n t2 c]
  note r3 = issuer_keys_count
    [where net = "net_issuer example_profile_alpha NoResponse" and reqs = "[]"
       and cm = "example_certificate V1_2" and j = example_profile_alpha
       and P = "''ecdsa-koblitz-pubkey:''"
       and entries = "[JObj [(''publicKey'', JStr ''ecdsa-koblitz-pubkey:1ABC'')]]"
       and info = "\<lparr>issuer_keys =
               [\<lparr>public_key = JStr ''1ABC'', created = Some JNull,
                  expires = Some JNull, revoked = Some JNull\<rparr>],
             revocation_keys = None, revoked_assertions = Some []\<rparr>", OF n t3 c]
  note r4 = issuer_keys_count
    [where net = "net_issuer example_profile_v1 NoResponse" and reqs = "[]"
       and cm = "example_certificate V1_2" and j = example_profile_v1
       and P = "''ecdsa-koblitz-pubkey:''"
       and info = "\<lparr>issuer_keys = [key_only (JStr ''1ABC'')],
             revocation_keys = Some [key_only (JStr ''1REV'')],
             revoked_assertions = None\<rparr>", OF n t4 c]
  from r1 a1 have e1: "get_issuer_info ''ecdsa-koblitz-pubkey:''
       (net_issuer example_profile_no_keys NoResponse) (example_certificate V1_2) []
     = (Inr \<lparr>issuer_keys = [], revocation_keys = None, revoked_assertions = Some []\<rparr>,
        [''http://i/profile''])"
    by blast
  from r2 a2 g2 have e2: "length [\<lparr>public_key = JStr ''1ABC'', created = Some (JStr ''2017-06-29''),
                expires = Some JNull, revoked = Some JNull\<rparr>]
       = length [JObj [(''id'', JStr ''ecdsa-koblitz-pubkey:1ABC''),
                       (''created'', JStr ''2017-06-29'')]]"
    by simp
  from r3 a3 g3 have e3: "length [\<lparr>public_key = JStr ''1ABC'', created = Some JNull,
                expires = Some JNull, revoked = Some JNull\<rparr>]
       = length [JObj [(''publicKey'', JStr ''ecdsa-koblitz-pubkey:1ABC'')]]"
    by simp
  from r4 a4 g4 have e4: "length [key_only (JStr ''1ABC'')] = 1"
    by simp
  from e1 g2 e2 g3 e3 g4 e4 show ?thesis
    by (intro conjI)
qed

text \<open>
  C6 as stated fails: for a profile with the \<open>@context\<close> marker and neither
  \<open>publicKey\<close> nor \<open>publicKeys\<close>, \<open>get_issuer_info\<close> returns an issuer information
  with no key.
\<close>

theorem issuer_without_keys_returned:
  "get_issuer_info ''ecdsa-koblitz-pubkey:'' (net_issuer example_profile_no_keys NoResponse)
       (example_certificate V1_2) []
     = (Inr \<lparr>issuer_keys = [], revocation_keys = None, revoked_assertions = Some []\<rparr>,
        [''http://i/profile''])"
  by (simp add: issuer_defs)

text \<open>
  C7, as amended. For a certificate of version V2 or V2-alpha whose revocation list is
  fetched and answered with a status other than 200, the fetch raises nothing and no
  revoked assertion is collected: \<open>get_issuer_info\<close> goes on to the keys of the profile
  as with an empty list of revoked assertions. For a profile with the \<open>@context\<close>
  marker the issuer information it returns has the empty list as its revoked assertions;
  for a profile without the marker the branch of the revocation keys is taken, and the
  issuer information has one revocation key and is given no revoked assertions.
\<close>

theorem revocation_list_non_success:
  assumes "version cm = V2 \<or> version cm = V2_ALPHA"
      and "getitem (certificate_json cm) ''badge'' = Inr badge"
      and "getitem badge ''issuer'' = Inr issuer"
      and "contains ''revocationList'' issuer = Inr True"
      and "getitem issuer ''revocationList'' = Inr (JStr u)"
      and "net (length reqs) (issuer_id cm) = Response 200 (Some j)"
      and "truthy j"
      and "net (Suc (length reqs)) u = Response status_code body"
      and "status_code \<noteq> 200"
  shows "get_issuer_info P net cm reqs = (issuer_info_of P j [], reqs @ [issuer_id cm, u])
         \<and> (contains ''@context'' j = Inr True \<and> issuer_info_of P j [] = Inr info \<longrightarrow>
              revoked_assertions info = Some [])
         \<and> (contains ''@context'' j = Inr False \<and> issuer_info_of P j [] = Inr info \<longrightarrow>
              revoked_assertions info = None \<and> (\<exists>k. revocation_keys info = Some [k]))"
proof -
  have "collect_revoked_assertions net cm (reqs @ [issuer_id cm])
          = (Inr [], (reqs @ [issuer_id cm]) @ [u])"
    using assms by (intro collect_non_success) simp_all
  then have a: "get_issuer_info P net cm reqs = (issuer_info_of P j [], reqs @ [issuer_id cm, u])"
    using assms(6,7) by (simp add: get_issuer_info_fetched)
  have b: "contains ''@context'' j = Inr True \<and> issuer_info_of P j [] = Inr info \<longrightarrow>
              revoked_assertions info = Some []"
    by (auto simp: issuer_info_of_def and_then_eq_Inr)
  have c: "contains ''@context'' j = Inr False \<and> issuer_info_of P j [] = Inr info \<longrightarrow>
              revoked_assertions info = None \<and> (\<exists>k. revocation_keys info = Some [k])"
    by (auto simp: issuer_info_of_def and_then_eq_Inr)
  from a b c show ?thesis by blast
qed

text \<open>
  A certificate of version V2 whose revocation list is answered with status 404, with a
  profile of the current format and with one of the legacy format.
\<close>

theorem revocation_list_non_success_witness:
  "(version (example_certificate V2) = V2 \<or> version (example_certificate V2) = V2_ALPHA)
   \<and> contains ''revocationList''
        (JObj [(''id'', JStr ''http://i/profile''),
               (''revocationList'', JStr ''http://i/revoked'')]) = Inr True
   \<and> (404::int) \<noteq> 200
   \<and> get_issuer_info ''ecdsa-koblitz-pubkey:'' (net_issuer example_profile (Response 404 None))
       (example_certificate V2) []
     = (Inr \<lparr>issuer_keys =
               [\<lparr>public_key = JStr ''1ABC'', created = Some (JStr ''2017-06-29''),
                  expires = Some JNull, revoked = Some JNull\<rparr>],
             revocation_keys = None, revoked_assertions = Some []\<rparr>,
        [''http://i/profile'', ''http://i/revoked''])
   \<and> get_issuer_info ''ecdsa-koblitz-pubkey:'' (net_issuer example_profile_v1 (Response 404 None))
       (example_certificate V2) []
     = (Inr \<lparr>issuer_keys = [key_only (JStr ''1ABC'')],
             revocation_keys = Some [key_only (JStr ''1REV'')],
             revoked_assertions = None\<rparr>,
        [''http://i/profile'', ''http://i/revoked''])"
proof -
  have h1: "version (example_certificate V2) = V2 \<or> version (example_certificate V2) = V2_ALPHA"
    by (simp add: issuer_defs)
  have h2: "getitem (certificate_json (example_certificate V2)) ''badge''
              = Inr (JObj [(''issuer'',
                      JObj [(''id'', JStr ''http://i/profile''),
                            (''revocationList'', JStr ''http://i/revoked'')])])"
    by (simp add: issuer_defs)
  have h3: "getitem (JObj [(''issuer'',
                      JObj [(''id'', JStr ''http://i/profile''),
                            (''revocationList'', JStr ''http://i/revoked'')])]) ''issuer''
              = Inr (JObj [(''id'', JStr ''http://i/profile''),
                           (''revocationList'', JStr ''http://i/revoked'')])"
    by simp
  have h4: "contains ''revocationList''
        (JObj [(''id'', JStr ''http://i/profile''),
               (''revocationList'', JStr ''http://i/revoked'')]) = Inr True"
    by simp
  have h5: "getitem (JObj [(''id'', JStr ''http://i/profile''),
               (''revocationList'', JStr ''http://i/revoked'')]) ''revocationList''
              = Inr (JStr ''http://i/revoked'')"
    by simp
  have h6: "\<And>p. net_issuer p (Response 404 None) (length ([] :: string list))
              (issuer_id (example_certificate V2)) = Response 200 (Some p)"
    by (simp add: issuer_defs)
  have h7: "truthy example_profile" and h7': "truthy example_profile_v1"
    by (simp_all add: issuer_defs)
  have h8: "\<And>p. net_issuer p (Response 404 None) (Suc (length ([] :: string list)))
              ''http://i/revoked'' = Response 404 None"
    by (simp add: issuer_defs)
  have h9: "(404::int) \<noteq> 200"
    by simp
  have i1: "issuer_info_of ''ecdsa-koblitz-pubkey:'' example_profile []
      = Inr \<lparr>issuer_keys =
               [\<lparr>public_key = JStr ''1ABC'', created = Some (JStr ''2017-06-29''),
                  expires = Some JNull, revoked = Some JNull\<rparr>],
             revocation_keys = None, revoked_assertions = Some []\<rparr>"
    by (simp add: issuer_defs)
  have i2: "issuer_info_of ''ecdsa-koblitz-pubkey:'' example_profile_v1 []
      = Inr \<lparr>issuer_keys = [key_only (JStr ''1ABC'')],
             revocation_keys = Some [key_only (JStr ''1REV'')],
             revoked_assertions = None\<rparr>"
    by (simp add: issuer_defs)
  note r1 = revocation_list_non_success
    [where cm = "example_certificate V2" and net = "net_issuer example_profile (Response 404 None)"
       and reqs = "[]" and j = example_profile and P = "''ecdsa-koblitz-pubkey:''"
       and u = "''http://i/revoked''", OF h1 h2 h3 h4 h5 h6 h7 h8 h9]
  note r2 = revocation_list_non_success
    [where cm = "example_certificate V2"
       and net = "net_issuer example_profile_v1 (Response 404 None)"
       and reqs = "[]" and j = example_profile_v1 and P = "''ecdsa-koblitz-pubkey:''"
       and u = "''http://i/revoked''", OF h1 h2 h3 h4 h5 h6 h7' h8 h9]
  from r1 i1 have e1: "get_issuer_info ''ecdsa-koblitz-pubkey:''
       (net_issuer example_profile (Response 404 None)) (example_certificate V2) []
     = (Inr \<lparr>issuer_keys =
               [\<lparr>public_key = JStr ''1ABC'', created = Some (JStr ''2017-06-29''),
                  expires = Some JNull, revoked = Some JNull\<rparr>],
             revocation_keys = None, revoked_assertions = Some []\<rparr>,
        [''http://i/profile'', ''http://i/revoked''])"
    by (simp add: issuer_defs)
  from r2 i2 have e2: "get_issuer_info ''ecdsa-koblitz-pubkey:''
       (net_issuer example_profile_v1 (Response 404 None)) (example_certificate V2) []
     = (Inr \<lparr>issuer_keys = [key_only (JStr ''1ABC'')],
             revocation_keys = Some [key_only (JStr ''1REV'')],
             revoked_assertions = None\<rparr>,
        [''http://i/profile'', ''http://i/revoked''])"
    by (simp add: issuer_defs)
  from h1 h4 h9 e1 e2 show ?thesis
    by (intro conjI)
qed

text \<open>
  C7 as stated fails. The fetch of the revocation list fails and \<open>get_issuer_info\<close>
  raises: when \<open>requests.get\<close> raises (no connection, or the timeout of ten seconds that
  the source sets), when the body of the response is not JSON, and, with a status 404,
  when the profile is of the legacy format without revocation keys, where with the list
  fetched it returns the issuer information.
\<close>

theorem revocation_list_failure_raises:
  "get_issuer_info ''ecdsa-koblitz-pubkey:'' (net_issuer example_profile NoResponse)
       (example_certificate V2) []
     = (Inl RequestException, [''http://i/profile'', ''http://i/revoked''])
   \<and> get_issuer_info ''ecdsa-koblitz-pubkey:'' (net_issuer example_profile (Response 200 None))
       (example_certificate V2) []
     = (Inl ValueError, [''http://i/profile'', ''http://i/revoked''])
   \<and> get_issuer_info ''ecdsa-koblitz-pubkey:''
       (net_issuer example_profile_v1_keys_only (Response 404 None)) (example_certificate V2) []
     = (Inl KeyError, [''http://i/profile'', ''http://i/revoked''])
   \<and> get_issuer_info ''ecdsa-koblitz-pubkey:''
       (net_issuer example_profile_v1_keys_only (Response 200 (Some example_revocation_list)))
       (example_certificate V2) []
     = (Inr \<lparr>issuer_keys = [key_only (JStr ''1ABC'')], revocation_keys = None,
             revoked_assertions = Some [JStr ''urn:uuid:1'']\<rparr>,
        [''http://i/profile'', ''http://i/revoked''])"
  by (simp add: issuer_defs)

text \<open>
  C8. For a profile without the \<open>@context\<close> marker, \<open>get_issuer_info\<close> takes one key,
  the \<open>key\<close> of the first entry of \<open>issuerKeys\<close>. When revoked assertions were
  collected from the revocation list of the certificate, it returns that key alone with
  those revoked assertions and no revocation keys; otherwise it returns the key with one
  revocation key, the \<open>key\<close> of the first entry of \<open>revocationKeys\<close>.
\<close>

theorem legacy_profile:
  assumes "net (length reqs) (issuer_id cm) = Response 200 (Some j)"
      and "truthy j"
      and "contains ''@context'' j = Inr False"
      and "collect_revoked_assertions net cm (reqs @ [issuer_id cm]) = (Inr revs, reqs')"
      and "getitem j ''issuerKeys'' = Inr ks"
      and "getitem0 ks = Inr entry"
      and "getitem entry ''key'' = Inr k"
  shows "(revs \<noteq> [] \<longrightarrow>
           get_issuer_info P net cm reqs =
             (Inr \<lparr>issuer_keys = [key_only k], revocation_keys = None,
                    revoked_assertions = Some revs\<rparr>, reqs'))
         \<and> (revs = [] \<and> getitem j ''revocationKeys'' = Inr rks \<and> getitem0 rks = Inr rentry
              \<and> getitem rentry ''key'' = Inr rk \<longrightarrow>
           get_issuer_info P net cm reqs =
             (Inr \<lparr>issuer_keys = [key_only k], revocation_keys = Some [key_only rk],
                    revoked_assertions = None\<rparr>, reqs'))"
  using assms
  by (auto simp: get_issuer_info_fetched issuer_info_of_def first_key_def)

text \<open>
  The legacy profile with a certificate of version V2 whose revocation list has one
  entry, and with a certificate of version 1.2.
\<close>

theorem legacy_profile_witness:
  "contains ''@context'' example_profile_v1 = Inr False
   \<and> collect_revoked_assertions
        (net_issuer example_profile_v1 (Response 200 (Some example_revocation_list)))
        (example_certificate V2) ([] @ [issuer_id (example_certificate V2)])
      = (Inr [JStr ''urn:uuid:1''], [''http://i/profile'', ''http://i/revoked''])
   \<and> [JStr ''urn:uuid:1''] \<noteq> []
   \<and> get_issuer_info ''ecdsa-koblitz-pubkey:''
        (net_issuer example_profile_v1 (Response 200 (Some example_revocation_list)))
        (example_certificate V2) []
      = (Inr \<lparr>issuer_keys = [key_only (JStr ''1ABC'')], revocation_keys = None,
              revoked_assertions = Some [JStr ''urn:uuid:1'']\<rparr>,
         [''http://i/profile'', ''http://i/revoked''])
   \<and> collect_revoked_assertions (net_issuer example_profile_v1 NoResponse)
        (example_certificate V1_2) ([] @ [issuer_id (example_certificate V1_2)])
      = (Inr [], [''http://i/profile''])
   \<and> get_issuer_info ''ecdsa-koblitz-pubkey:'' (net_issuer example_profile_v1 NoResponse)
        (example_certificate V1_2) []
      = (Inr \<lparr>issuer_keys = [key_only (JStr ''1ABC'')],
              revocation_keys = Some [key_only (JStr ''1REV'')],
              revoked_assertions = None\<rparr>,
         [''http://i/profile''])"
proof -
  have n: "\<And>r v. net_issuer example_profile_v1 r (length ([] :: string list))
             (issuer_id (example_certificate v)) = Response 200 (Some example_profile_v1)"
    by (simp add: issuer_defs)
  have t: "truthy example_profile_v1"
    by (simp add: issuer_defs)
  have c: "contains ''@context'' example_profile_v1 = Inr False"
    by (simp add: issuer_defs)
  have r1: "collect_revoked_assertions
        (net_issuer example_profile_v1 (Response 200 (Some example_revocation_list)))
        (example_certificate V2) ([] @ [issuer_id (example_certificate V2)])
      = (Inr [JStr ''urn:uuid:1''], [''http://i/profile'', ''http://i/revoked''])"
    by (simp add: issuer_defs)
  have r2: "collect_revoked_assertions (net_issuer example_profile_v1 NoResponse)
        (example_certificate V1_2) ([] @ [issuer_id (example_certificate V1_2)])
      = (Inr [], [''http://i/profile''])"
    by (simp add: issuer_defs)
  have k1: "getitem example_profile_v1 ''issuerKeys''
              = Inr (JList [JObj [(''date'', JStr ''2016-05-01''), (''key'', JStr ''1ABC'')]])"
    by (simp add: issuer_defs)
  have k2: "getitem0 (JList [JObj [(''date'', JStr ''2016-05-01''), (''key'', JStr ''1ABC'')]])
              = Inr (JObj [(''date'', JStr ''2016-05-01''), (''key'', JStr ''1ABC'')])"
    by simp
  have k3: "getitem (JObj [(''date'', JStr ''2016-05-01''), (''key'', JStr ''1ABC'')]) ''key''
              = Inr (JStr ''1ABC'')"
    by simp
  have q1: "getitem example_profile_v1 ''revocationKeys''
              = Inr (JList [JObj [(''date'', JStr ''2016-05-01''), (''key'', JStr ''1REV'')]])"
    by (simp add: issuer_defs)
  have q2: "getitem0 (JList [JObj [(''date'', JStr ''2016-05-01''), (''key'', JStr ''1REV'')]])
              = Inr (JObj [(''date'', JStr ''2016-05-01''), (''key'', JStr ''1REV'')])"
    by simp
  have q3: "getitem (JObj [(''date'', JStr ''2016-05-01''), (''key'', JStr ''1REV'')]) ''key''
              = Inr (JStr ''1REV'')"
    by simp
  have ne: "[JStr ''urn:uuid:1''] \<noteq> []"
    by simp
  note a = legacy_profile
    [where net = "net_issuer example_profile_v1 (Response 200 (Some example_revocation_list))"
       and reqs = "[]" and cm = "example_certificate V2" and j = example_profile_v1
       and P = "''ecdsa-koblitz-pubkey:''", OF n t c r1 k1 k2 k3]
  note b = legacy_profile
    [where net = "net_issuer example_profile_v1 NoResponse"
       and reqs = "[]" and cm = "example_certificate V1_2" and j = example_profile_v1
       and P = "''ecdsa-koblitz-pubkey:''"
       and rks = "JList [JObj [(''date'', JStr ''2016-05-01''), (''key'', JStr ''1REV'')]]"
       and rentry = "JObj [(''date'', JStr ''2016-05-01''), (''key'', JStr ''1REV'')]"
       and rk = "JStr ''1REV''", OF n t c r2 k1 k2 k3]
  from a ne have e1: "get_issuer_info ''ecdsa-koblitz-pubkey:''
        (net_issuer example_profile_v1 (Response 200 (Some example_revocation_list)))
        (example_certificate V2) []
      = (Inr \<lparr>issuer_keys = [key_only (JStr ''1ABC'')], revocation_keys = None,
              revoked_assertions = Some [JStr ''urn:uuid:1'']\<rparr>,
         [''http://i/profile'', ''http://i/revoked''])"
    by simp
  from b q1 q2 q3 have e2: "get_issuer_info ''ecdsa-koblitz-pubkey:''
        (net_issuer example_profile_v1 NoResponse) (example_certificate V1_2) []
      = (Inr \<lparr>issuer_keys = [key_only (JStr ''1ABC'')],
              revocation_keys = Some [key_only (JStr ''1REV'')],
              revoked_assertions = None\<rparr>,
         [''http://i/profile''])"
    by simp
  from c r1 ne e1 r2 e2 show ?thesis
    by (intro conjI)
qed

end
